theory Spec2Isabelle
  imports Main
begin

section \<open>Values of the program\<close>

text \<open>
  A JavaScript \<^verbatim>\<open>number\<close> as the program uses it: it is converted with \<^verbatim>\<open>BigInt(..)\<close>,
  compared with \<^verbatim>\<open>!==\<close> against the integer loop counter, or handed on unchanged. For
  these uses every value that is not an integer (a fraction, NaN, an infinity) behaves
  alike, so they are one constructor. Integers are mathematical integers: the counter of
  the run loop stays far below \<open>2 ^ 53\<close>, where a double is exact.
\<close>

datatype number = Integer int | NonInteger

text \<open>
  Thrown values. \<^verbatim>\<open>catch (err: any)\<close> receives whatever was thrown or whatever a promise
  was rejected with: an error object (\<^verbatim>\<open>new Error(message)\<close>, the RangeError of \<^verbatim>\<open>BigInt\<close>,
  a TypeError), or \<^verbatim>\<open>null\<close> or \<^verbatim>\<open>undefined\<close>, which are one constructor: the program
  only ever reads the property \<^verbatim>\<open>message\<close> of a caught value, and on both of them that
  read throws a TypeError. Every other value has the property to read, so a thrown
  primitive behaves there as an error object does.
\<close>

datatype error = Error string | RangeError | TypeError | NullOrUndefined

text \<open>
  \<^verbatim>\<open>err.message\<close>: a TypeError on \<^verbatim>\<open>null\<close> and \<^verbatim>\<open>undefined\<close>; otherwise the message, for
  which the error that carries it stands.
\<close>

definition message :: "error \<Rightarrow> error + error" where
  "message err = (case err of NullOrUndefined \<Rightarrow> Inl TypeError | _ \<Rightarrow> Inr err)"

text \<open>\<^verbatim>\<open>BigInt(n)\<close> throws a RangeError unless \<open>n\<close> is an integer.\<close>

definition BigInt :: "number \<Rightarrow> error + int" where
  "BigInt n = (case n of Integer i \<Rightarrow> Inr i | NonInteger \<Rightarrow> Inl RangeError)"

text \<open>The operator \<^verbatim>\<open>/\<close> on BigInt values truncates towards zero.\<close>

definition bigint_div :: "int \<Rightarrow> int \<Rightarrow> int" where
  "bigint_div a b = sgn a * sgn b * (\<bar>a\<bar> div \<bar>b\<bar>)"

text \<open>
  An \<^verbatim>\<open>EthAddress\<close>; \<open>Undefined\<close> is what the destructuring
  \<^verbatim>\<open>[fundingAddress] = await ethereumRpc.getAccounts()\<close> binds when the list is empty.
\<close>

datatype address = EthAddress nat | Undefined

type_synonym txHash = nat

type_synonym buffer = "nat list"

text \<open>The two batch executors that \<^verbatim>\<open>run\<close> constructs, with their constructor arguments.\<close>

datatype manager =
    AgentManager address string number number number "number list"
  | ElementAgentManager address number number "number list"

text \<open>The lines written with \<^verbatim>\<open>console.log\<close> (elapsed wall-clock time is left out).\<close>

datatype logLine =
    PrimaryFundingAccount address int
  | StartingWasabiRun int
  | FundingProcessAddress address int
  | FailedToFund error
  | TestRunCompleted int
  | RefundingFundingAddress address int

text \<open>
  Everything the program does to the outside world, in the order it does it. A call of a
  collaborator is recorded with its arguments and with what it returned or threw.
\<close>

datatype event =
    ConsoleLog logLine
  | CreateAztecSdk string number "error + unit"
  | SdkRun "error + unit"
  | AwaitSynchronised "error + unit"
  | AddAccount buffer "error + address"
  | GetAccounts "error + address list"
  | GetPublicBalanceAv nat address "error + int"
  | RandomBytes nat buffer
  | UniswapGetRequiredFunding number "error + int"
  | PaymentGetRequiredFunding "number option" number "error + int"
  | GetPublicBalance nat address "error + int"
  | Transfer int address address "error + txHash"
  | GetTransactionReceipt txHash "error + bool"
  | SetTimeout nat
  | AgentManagerRun manager "error + unit"
  | Destroy "error + unit"

section \<open>The collaborators\<close>

text \<open>
  The ledger client, the wallet provider, the asset and the agents are imported by
  \<^verbatim>\<open>run.ts\<close>, not defined there. They are a parameter of the model: a record of
  operations on a world \<open>'w\<close> that the program never inspects. An asynchronous operation
  returns \<open>Inr\<close> of its value or \<open>Inl\<close> of what it threw, and the next world.
  \<^verbatim>\<open>ElementAgent.getRequiredFunding()\<close> and \<^verbatim>\<open>ManualPaymentAgent.getRequiredFunding()\<close>
  are synchronous and take no argument: they are two constants.
\<close>

record 'w services =
  createAztecSdk :: "string \<Rightarrow> number \<Rightarrow> 'w \<Rightarrow> (error + unit) \<times> 'w"
  sdkRun :: "'w \<Rightarrow> (error + unit) \<times> 'w"
  awaitSynchronised :: "'w \<Rightarrow> (error + unit) \<times> 'w"
  addAccount :: "buffer \<Rightarrow> 'w \<Rightarrow> (error + address) \<times> 'w"
  getAccounts :: "'w \<Rightarrow> (error + address list) \<times> 'w"
  getPublicBalanceAv :: "nat \<Rightarrow> address \<Rightarrow> 'w \<Rightarrow> (error + int) \<times> 'w"
  randomBytes :: "nat \<Rightarrow> 'w \<Rightarrow> buffer \<times> 'w"
  uniswapGetRequiredFunding :: "number \<Rightarrow> 'w \<Rightarrow> (error + int) \<times> 'w"
  paymentGetRequiredFunding :: "number option \<Rightarrow> number \<Rightarrow> 'w \<Rightarrow> (error + int) \<times> 'w"
  elementGetRequiredFunding :: int
  manualPaymentGetRequiredFunding :: int
  getPublicBalance :: "nat \<Rightarrow> address \<Rightarrow> 'w \<Rightarrow> (error + int) \<times> 'w"
  transfer :: "int \<Rightarrow> address \<Rightarrow> address \<Rightarrow> 'w \<Rightarrow> (error + txHash) \<times> 'w"
  getTransactionReceipt :: "txHash \<Rightarrow> 'w \<Rightarrow> (error + bool) \<times> 'w"
  sleep :: "nat \<Rightarrow> 'w \<Rightarrow> 'w"
  agentManagerRun :: "manager \<Rightarrow> 'w \<Rightarrow> (error + unit) \<times> 'w"
  destroy :: "'w \<Rightarrow> (error + unit) \<times> 'w"

section \<open>Sequencing, exceptions and the trace\<close>

text \<open>
  A piece of the program maps the world and the trace so far to an outcome and the world
  and trace after it. \<open>OutOfFuel\<close> is the outcome of a loop that has not finished within
  the number of rounds it was given; the trace then holds what it did until there.
\<close>

datatype 'a outcome = Returned 'a | Thrown error | OutOfFuel

type_synonym ('w, 'a) prog = "'w \<times> event list \<Rightarrow> 'a outcome \<times> 'w \<times> event list"

definition return :: "'a \<Rightarrow> ('w, 'a) prog" where
  "return x s = (Returned x, s)"

definition throw :: "error \<Rightarrow> ('w, 'a) prog" where
  "throw e s = (Thrown e, s)"

text \<open>\<^verbatim>\<open>const x = await m; k x\<close>: an exception of \<open>m\<close> skips \<open>k\<close>.\<close>

definition await :: "('w, 'a) prog \<Rightarrow> ('a \<Rightarrow> ('w, 'b) prog) \<Rightarrow> ('w, 'b) prog" where
  "await m k s =
     (case m s of
        (Returned x, s') \<Rightarrow> k x s'
      | (Thrown e, s') \<Rightarrow> (Thrown e, s')
      | (OutOfFuel, s') \<Rightarrow> (OutOfFuel, s'))"

text \<open>A call of a collaborator: it acts on the world and is appended to the trace.\<close>

definition call :: "('w \<Rightarrow> (error + 'a) \<times> 'w) \<Rightarrow> (error + 'a \<Rightarrow> event) \<Rightarrow> ('w, 'a) prog" where
  "call f ev s =
     (case s of (w, tr) \<Rightarrow>
        (case f w of (r, w') \<Rightarrow>
           ((case r of Inl e \<Rightarrow> Thrown e | Inr x \<Rightarrow> Returned x), (w', tr @ [ev r]))))"

definition consoleLog :: "logLine \<Rightarrow> ('w, unit) prog" where
  "consoleLog l s = (case s of (w, tr) \<Rightarrow> (Returned (), (w, tr @ [ConsoleLog l])))"

text \<open>\<^verbatim>\<open>await new Promise(resolve => setTimeout(resolve, ms))\<close>: the world moves on, nothing is thrown.\<close>

definition setTimeout :: "'w services \<Rightarrow> nat \<Rightarrow> ('w, unit) prog" where
  "setTimeout env ms s = (case s of (w, tr) \<Rightarrow> (Returned (), (sleep env ms w, tr @ [SetTimeout ms])))"

text \<open>A synchronous expression that may throw.\<close>

definition sync :: "error + 'a \<Rightarrow> ('w, 'a) prog" where
  "sync r s = ((case r of Inl e \<Rightarrow> Thrown e | Inr x \<Rightarrow> Returned x), s)"

section \<open>getAgentRequiredFunding\<close>

record fundingSpec =
  fundingThreshold :: int
  toFund :: int

definition ethTransferEstimate :: int where
  "ethTransferEstimate = 21000 * (4 * 10 ^ 9)"

text \<open>\<^verbatim>\<open>assetIds[0]\<close>: \<open>None\<close> is \<^verbatim>\<open>undefined\<close>, read from an empty array.\<close>

definition firstAsset :: "number list \<Rightarrow> number option" where
  "firstAsset assetIds = (case assetIds of [] \<Rightarrow> None | a # _ \<Rightarrow> Some a)"

text \<open>
  The immediately invoked function of lines 49 to 66, the \<^verbatim>\<open>switch\<close> on the agent type.
  In each product the left factor is evaluated (and awaited) before \<^verbatim>\<open>BigInt(numAgents)\<close>.
\<close>

definition getAgentRequiredFunding_value ::
  "'w services \<Rightarrow> string \<Rightarrow> number \<Rightarrow> number \<Rightarrow> number list \<Rightarrow> ('w, int) prog" where
  "getAgentRequiredFunding_value env agentType numAgents numTransfers assetIds =
     (if agentType = ''uniswap'' then
        await (call (uniswapGetRequiredFunding env numTransfers) (UniswapGetRequiredFunding numTransfers))
          (\<lambda>cost. await (sync (BigInt numAgents))
          (\<lambda>n. return ((ethTransferEstimate + cost) * n)))
      else if agentType = ''element'' then
        await (sync (BigInt numAgents))
          (\<lambda>n. return ((ethTransferEstimate + elementGetRequiredFunding env) * n
                         + manualPaymentGetRequiredFunding env))
      else if agentType = ''payment'' then
        await (call (paymentGetRequiredFunding env (firstAsset assetIds) numTransfers)
                 (PaymentGetRequiredFunding (firstAsset assetIds) numTransfers))
          (\<lambda>cost. await (sync (BigInt numAgents))
          (\<lambda>n. return ((ethTransferEstimate + cost) * n)))
      else throw (Error (''Unknown agent type: '' @ agentType)))"

text \<open>The parameter \<^verbatim>\<open>loops = 10\<close>: the default applies when the argument is \<^verbatim>\<open>undefined\<close>.\<close>

definition getAgentRequiredFunding ::
  "'w services \<Rightarrow> string \<Rightarrow> number \<Rightarrow> number \<Rightarrow> number list \<Rightarrow> number option
     \<Rightarrow> ('w, fundingSpec) prog" where
  "getAgentRequiredFunding env agentType numAgents numTransfers assetIds loops =
     await (getAgentRequiredFunding_value env agentType numAgents numTransfers assetIds)
       (\<lambda>value. await (sync (BigInt (case loops of None \<Rightarrow> Integer 10 | Some l \<Rightarrow> l)))
       (\<lambda>l. let fundingBufferPercent = 5 * l in
              return \<lparr> fundingThreshold = value,
                       toFund = bigint_div (value * (100 + fundingBufferPercent)) 100 \<rparr>))"

section \<open>run\<close>

definition initSdk :: "'w services \<Rightarrow> string \<Rightarrow> number \<Rightarrow> ('w, unit) prog" where
  "initSdk env serverUrl minConfirmation =
     await (call (createAztecSdk env serverUrl minConfirmation) (CreateAztecSdk serverUrl minConfirmation))
       (\<lambda>_. await (call (sdkRun env) SdkRun)
       (\<lambda>_. call (awaitSynchronised env) AwaitSynchronised))"

text \<open>
  The body of the \<^verbatim>\<open>try\<close> block, lines 122 to 128, up to the \<^verbatim>\<open>break\<close>: one transfer
  of \<open>toFund\<close> from the funding address to the process address, and its receipt.
\<close>

definition fundingAttempt :: "'w services \<Rightarrow> address \<Rightarrow> address \<Rightarrow> fundingSpec \<Rightarrow> ('w, unit) prog" where
  "fundingAttempt env fundingAddress processAddress spec =
     await (consoleLog (FundingProcessAddress processAddress (toFund spec)))
       (\<lambda>_. await (call (transfer env (toFund spec) fundingAddress processAddress)
                       (Transfer (toFund spec) fundingAddress processAddress))
       (\<lambda>txHash. await (call (getTransactionReceipt env txHash) (GetTransactionReceipt txHash))
       (\<lambda>status. if \<not> status then throw (Error ''receipt status is false.'') else return ())))"

text \<open>
  The \<^verbatim>\<open>while\<close> loop of lines 120 to 133. The balance is polled in the loop condition,
  outside the \<^verbatim>\<open>try\<close>: what the poll throws leaves the loop. A successful attempt leaves
  the loop by \<^verbatim>\<open>break\<close>; a failed one is logged, followed by a sleep of 5000 ms and the
  next round. The log line is built from \<^verbatim>\<open>err.message\<close> inside the \<^verbatim>\<open>catch\<close> block, so
  what that read throws leaves the loop as well, before anything is logged. The loop
  has no bound of its own: each round takes one unit of fuel.
\<close>

fun fundingLoop ::
  "nat \<Rightarrow> 'w services \<Rightarrow> address \<Rightarrow> address \<Rightarrow> fundingSpec \<Rightarrow> ('w, unit) prog" where
  "fundingLoop 0 env fundingAddress processAddress spec s = (OutOfFuel, s)"
| "fundingLoop (Suc fuel) env fundingAddress processAddress spec s =
     await (call (getPublicBalance env 0 processAddress) (GetPublicBalance 0 processAddress))
       (\<lambda>balance s1.
          if balance < fundingThreshold spec then
            (case fundingAttempt env fundingAddress processAddress spec s1 of
               (Returned _, s2) \<Rightarrow> (Returned (), s2)
             | (Thrown err, s2) \<Rightarrow>
                 await (sync (message err))
                   (\<lambda>msg. await (consoleLog (FailedToFund msg))
                   (\<lambda>_. await (setTimeout env 5000)
                   (\<lambda>_ s3. fundingLoop fuel env fundingAddress processAddress spec s3))) s2
             | (OutOfFuel, s2) \<Rightarrow> (OutOfFuel, s2))
          else (Returned (), s1)) s"

text \<open>Lines 135 to 148: the executor is chosen by \<^verbatim>\<open>agentType != 'element'\<close>.\<close>

definition agentManager ::
  "address \<Rightarrow> string \<Rightarrow> number \<Rightarrow> number \<Rightarrow> number \<Rightarrow> number list \<Rightarrow> manager" where
  "agentManager processAddress agentType numAgents numTxsPerAgent numConcurrentTransfers assets =
     (if agentType \<noteq> ''element''
      then AgentManager processAddress agentType numAgents numTxsPerAgent numConcurrentTransfers assets
      else ElementAgentManager processAddress numAgents numTxsPerAgent assets)"

text \<open>The body of the \<^verbatim>\<open>for\<close> loop, lines 106 to 154, for one value of \<open>runNumber\<close>.\<close>

definition runIteration ::
  "nat \<Rightarrow> 'w services \<Rightarrow> address \<Rightarrow> address \<Rightarrow> string \<Rightarrow> number \<Rightarrow> number \<Rightarrow> number
     \<Rightarrow> number list \<Rightarrow> number option \<Rightarrow> int \<Rightarrow> ('w, unit) prog" where
  "runIteration fuel env fundingAddress processAddress agentType numAgents numTxsPerAgent
       numConcurrentTransfers assets loops runNumber =
     await (consoleLog (StartingWasabiRun runNumber))
       (\<lambda>_. await (getAgentRequiredFunding env agentType numAgents numTxsPerAgent assets loops)
       (\<lambda>spec. await (fundingLoop fuel env fundingAddress processAddress spec)
       (\<lambda>_. await (consoleLog (StartingWasabiRun runNumber))
       (\<lambda>_. await (call (agentManagerRun env
                             (agentManager processAddress agentType numAgents numTxsPerAgent
                                numConcurrentTransfers assets))
                       (AgentManagerRun
                             (agentManager processAddress agentType numAgents numTxsPerAgent
                                numConcurrentTransfers assets)))
       (\<lambda>_. consoleLog (TestRunCompleted runNumber))))))"

text \<open>
  The \<^verbatim>\<open>for\<close> loop of line 105: \<^verbatim>\<open>runNumber !== loops\<close> is false only when \<open>loops\<close> is
  the integer \<open>runNumber\<close>; it is true for \<^verbatim>\<open>undefined\<close> (\<open>None\<close>) and for every other number.
\<close>

fun runLoop ::
  "nat \<Rightarrow> 'w services \<Rightarrow> address \<Rightarrow> address \<Rightarrow> string \<Rightarrow> number \<Rightarrow> number \<Rightarrow> number
     \<Rightarrow> number list \<Rightarrow> number option \<Rightarrow> int \<Rightarrow> ('w, unit) prog" where
  "runLoop 0 env fundingAddress processAddress agentType numAgents numTxsPerAgent
       numConcurrentTransfers assets loops runNumber s = (OutOfFuel, s)"
| "runLoop (Suc fuel) env fundingAddress processAddress agentType numAgents numTxsPerAgent
       numConcurrentTransfers assets loops runNumber s =
     (if Some (Integer runNumber) \<noteq> loops then
        await (runIteration fuel env fundingAddress processAddress agentType numAgents
                 numTxsPerAgent numConcurrentTransfers assets loops runNumber)
          (\<lambda>_ s'. runLoop fuel env fundingAddress processAddress agentType numAgents
                     numTxsPerAgent numConcurrentTransfers assets loops (runNumber + 1) s') s
      else (Returned (), s))"

text \<open>
  Modelled from the spec: \<^verbatim>\<open>toBaseUnits\<close> is imported from the sdk package and is not
  among the sources. The spec gives the reserve that \<^verbatim>\<open>toBaseUnits('420', 12)\<close> stands
  for as 420 units, that is \<open>420 * 10 ^ 12\<close> base units: a string of decimal digits is read
  as a whole number of units, and a unit is \<open>10 ^ decimals\<close> base units.
\<close>

definition toBaseUnits :: "string \<Rightarrow> nat \<Rightarrow> int" where
  "toBaseUnits value decimals =
     foldl (\<lambda>units c. 10 * units + (of_char c - 48)) 0 value * 10 ^ decimals"

text \<open>Lines 157 to 165: the refund of the funding address, then \<^verbatim>\<open>sdk.destroy()\<close>.\<close>

definition refund :: "'w services \<Rightarrow> address \<Rightarrow> address \<Rightarrow> ('w, unit) prog" where
  "refund env fundingAddress processAddress =
     (let fee = toBaseUnits ''420'' 12 in
      await (call (getPublicBalance env 0 processAddress) (GetPublicBalance 0 processAddress))
        (\<lambda>balance. let value = balance - fee in
           await (if value > 0 then
                    await (consoleLog (RefundingFundingAddress fundingAddress value))
                      (\<lambda>_. await (call (transfer env value processAddress fundingAddress)
                                      (Transfer value processAddress fundingAddress))
                      (\<lambda>txHash. await (call (getTransactionReceipt env txHash)
                                           (GetTransactionReceipt txHash))
                      (\<lambda>_. return ())))
                  else return ())
             (\<lambda>_. call (destroy env) Destroy)))"

text \<open>Lines 91 to 96: the funding address.\<close>

definition fundingAccount :: "'w services \<Rightarrow> buffer \<Rightarrow> ('w, address) prog" where
  "fundingAccount env fundingPrivateKey =
     (if length fundingPrivateKey \<noteq> 0
      then call (addAccount env fundingPrivateKey) (AddAccount fundingPrivateKey)
      else await (call (getAccounts env) GetAccounts)
             (\<lambda>accounts. return (case accounts of [] \<Rightarrow> Undefined | a # _ \<Rightarrow> a)))"

definition processKey :: "'w services \<Rightarrow> ('w, buffer) prog" where
  "processKey env s =
     (case s of (w, tr) \<Rightarrow>
        (case randomBytes env 32 w of (key, w') \<Rightarrow> (Returned key, (w', tr @ [RandomBytes 32 key]))))"

text \<open>
  Lines 85 to 103 of \<^verbatim>\<open>run\<close>, the part before the loop: the session, the funding address,
  its balance for the log, and a fresh process address. The providers and the asset are
  built from \<open>host\<close> without a call to the outside, so \<open>host\<close> does not occur here.
\<close>

definition runSetup :: "'w services \<Rightarrow> buffer \<Rightarrow> string \<Rightarrow> number \<Rightarrow> ('w, address \<times> address) prog" where
  "runSetup env fundingPrivateKey rollupHost confs =
     await (initSdk env rollupHost confs)
       (\<lambda>_. await (fundingAccount env fundingPrivateKey)
       (\<lambda>fundingAddress.
          await (call (getPublicBalanceAv env 0 fundingAddress) (GetPublicBalanceAv 0 fundingAddress))
       (\<lambda>fundingAddressBalance.
          await (consoleLog (PrimaryFundingAccount fundingAddress fundingAddressBalance))
       (\<lambda>_. await (processKey env)
       (\<lambda>processPrivateKey.
          await (call (addAccount env processPrivateKey) (AddAccount processPrivateKey))
       (\<lambda>processAddress. return (fundingAddress, processAddress)))))))"

text \<open>
  \<^verbatim>\<open>run\<close>: the part before the loop, the loop from \<open>runNumber = 0\<close>, and, when the loop has
  returned, the refund and the teardown. \<open>fuel\<close> bounds the rounds of the loops.
\<close>

definition run ::
  "nat \<Rightarrow> 'w services \<Rightarrow> buffer \<Rightarrow> string \<Rightarrow> number \<Rightarrow> number \<Rightarrow> number \<Rightarrow> number list
     \<Rightarrow> string \<Rightarrow> string \<Rightarrow> number \<Rightarrow> number option \<Rightarrow> ('w, unit) prog" where
  "run fuel env fundingPrivateKey agentType numAgents numTxsPerAgent numConcurrentTransfers
       assets rollupHost host confs loops =
     await (runSetup env fundingPrivateKey rollupHost confs)
       (\<lambda>(fundingAddress, processAddress).
          await (runLoop fuel env fundingAddress processAddress agentType numAgents
                   numTxsPerAgent numConcurrentTransfers assets loops 0)
            (\<lambda>_. refund env fundingAddress processAddress))"

section \<open>A scripted ledger\<close>

text \<open>
  A test double for the collaborators: the world is the list of the answers still to be
  given, one per call, in the order of the calls. \<open>Fails e\<close> makes the call throw \<open>e\<close>; an
  answer of the wrong kind, or none, makes it throw an error of the double's own. The
  costs that the agents quote are fixed.
\<close>

datatype response =
    Done
  | Fails error
  | Balance int
  | Hash txHash
  | Status bool
  | Account address
  | Accounts "address list"
  | Bytes buffer

definition reply :: "(response \<Rightarrow> 'a option) \<Rightarrow> response list \<Rightarrow> (error + 'a) \<times> response list" where
  "reply pick w =
     (case w of
        [] \<Rightarrow> (Inl (Error ''no answer scripted''), [])
      | Fails e # rest \<Rightarrow> (Inl e, rest)
      | r # rest \<Rightarrow>
          (case pick r of
             Some x \<Rightarrow> (Inr x, rest)
           | None \<Rightarrow> (Inl (Error ''unexpected call''), rest)))"

definition scripted :: "int \<Rightarrow> int \<Rightarrow> error + int \<Rightarrow> error + int \<Rightarrow> response list services" where
  "scripted elementCost manualCost uniswapCost paymentCost =
     \<lparr> createAztecSdk = (\<lambda>_ _. reply (\<lambda>r. case r of Done \<Rightarrow> Some () | _ \<Rightarrow> None)),
       sdkRun = reply (\<lambda>r. case r of Done \<Rightarrow> Some () | _ \<Rightarrow> None),
       awaitSynchronised = reply (\<lambda>r. case r of Done \<Rightarrow> Some () | _ \<Rightarrow> None),
       addAccount = (\<lambda>_. reply (\<lambda>r. case r of Account a \<Rightarrow> Some a | _ \<Rightarrow> None)),
       getAccounts = reply (\<lambda>r. case r of Accounts as \<Rightarrow> Some as | _ \<Rightarrow> None),
       getPublicBalanceAv = (\<lambda>_ _. reply (\<lambda>r. case r of Balance b \<Rightarrow> Some b | _ \<Rightarrow> None)),
       randomBytes = (\<lambda>n w. case w of Bytes key # rest \<Rightarrow> (key, rest) | _ \<Rightarrow> (replicate n 0, w)),
       uniswapGetRequiredFunding = (\<lambda>_ w. (uniswapCost, w)),
       paymentGetRequiredFunding = (\<lambda>_ _ w. (paymentCost, w)),
       elementGetRequiredFunding = elementCost,
       manualPaymentGetRequiredFunding = manualCost,
       getPublicBalance = (\<lambda>_ _. reply (\<lambda>r. case r of Balance b \<Rightarrow> Some b | _ \<Rightarrow> None)),
       transfer = (\<lambda>_ _ _. reply (\<lambda>r. case r of Hash h \<Rightarrow> Some h | _ \<Rightarrow> None)),
       getTransactionReceipt = (\<lambda>_. reply (\<lambda>r. case r of Status b \<Rightarrow> Some b | _ \<Rightarrow> None)),
       sleep = (\<lambda>_ w. w),
       agentManagerRun = (\<lambda>_. reply (\<lambda>r. case r of Done \<Rightarrow> Some () | _ \<Rightarrow> None)),
       destroy = reply (\<lambda>r. case r of Done \<Rightarrow> Some () | _ \<Rightarrow> None) \<rparr>"

section \<open>A ledger that always answers the same\<close>

text \<open>
  A second test double, without a script: every poll of a balance, every transfer and
  every receipt gets the same answer, and every other call succeeds.
\<close>

definition steady :: "error + int \<Rightarrow> error + txHash \<Rightarrow> error + bool \<Rightarrow> unit services" where
  "steady balance hash status =
     \<lparr> createAztecSdk = (\<lambda>_ _ w. (Inr (), w)),
       sdkRun = (\<lambda>w. (Inr (), w)),
       awaitSynchronised = (\<lambda>w. (Inr (), w)),
       addAccount = (\<lambda>key w. (Inr (EthAddress (length key)), w)),
       getAccounts = (\<lambda>w. (Inr [EthAddress 0], w)),
       getPublicBalanceAv = (\<lambda>_ _ w. (balance, w)),
       randomBytes = (\<lambda>n w. (replicate n 0, w)),
       uniswapGetRequiredFunding = (\<lambda>_ w. (Inr 0, w)),
       paymentGetRequiredFunding = (\<lambda>_ _ w. (Inr 0, w)),
       elementGetRequiredFunding = 0,
       manualPaymentGetRequiredFunding = 0,
       getPublicBalance = (\<lambda>_ _ w. (balance, w)),
       transfer = (\<lambda>_ _ _ w. (hash, w)),
       getTransactionReceipt = (\<lambda>_ w. (status, w)),
       sleep = (\<lambda>_ w. w),
       agentManagerRun = (\<lambda>_ w. (Inr (), w)),
       destroy = (\<lambda>w. (Inr (), w)) \<rparr>"

section \<open>The shape of traces\<close>

text \<open>
  The events that the properties below speak of: a transfer, a batch run, the call of
  \<^verbatim>\<open>sdk.destroy()\<close>, and the marks of the last part of \<^verbatim>\<open>run\<close>, the log line of the refund
  and the call of \<^verbatim>\<open>sdk.destroy()\<close>.
\<close>

fun isTransfer :: "event \<Rightarrow> bool" where
  "isTransfer (Transfer a f t x) = True"
| "isTransfer e = False"

fun isBatch :: "event \<Rightarrow> bool" where
  "isBatch (AgentManagerRun m r) = True"
| "isBatch e = False"

fun isDestroy :: "event \<Rightarrow> bool" where
  "isDestroy (Destroy r) = True"
| "isDestroy e = False"

fun isTeardown :: "event \<Rightarrow> bool" where
  "isTeardown (ConsoleLog (RefundingFundingAddress a v)) = True"
| "isTeardown (Destroy r) = True"
| "isTeardown e = False"

text \<open>
  \<open>emits P m\<close>: whatever its outcome, \<open>m\<close> only appends to the trace, and only events
  that satisfy \<open>P\<close>.
\<close>

definition emits :: "(event \<Rightarrow> bool) \<Rightarrow> ('w, 'a) prog \<Rightarrow> bool" where
  "emits P m \<longleftrightarrow>
     (\<forall>w tr r w' tr'. m (w, tr) = (r, (w', tr')) \<longrightarrow> (\<exists>added. tr' = tr @ added \<and> list_all P added))"

text \<open>
  What one run of the funding loop appends to the trace, with its outcome: the rounds that
  failed, each ending in the log line and the sleep, and then the way the loop ended. A
  round whose transfer or receipt was rejected with \<^verbatim>\<open>null\<close> or \<^verbatim>\<open>undefined\<close> ends the loop
  with the TypeError of the \<^verbatim>\<open>catch\<close> block, and has neither the log line nor the sleep.
\<close>

inductive fundingTrace :: "address \<Rightarrow> address \<Rightarrow> fundingSpec \<Rightarrow> unit outcome \<Rightarrow> event list \<Rightarrow> bool"
  for fundingAddress processAddress spec where
  stopped: "fundingTrace fundingAddress processAddress spec OutOfFuel []"
| pollThrew:
    "fundingTrace fundingAddress processAddress spec (Thrown e)
       [GetPublicBalance 0 processAddress (Inl e)]"
| funded:
    "fundingThreshold spec \<le> b \<Longrightarrow>
     fundingTrace fundingAddress processAddress spec (Returned ())
       [GetPublicBalance 0 processAddress (Inr b)]"
| toppedUp:
    "b < fundingThreshold spec \<Longrightarrow>
     fundingTrace fundingAddress processAddress spec (Returned ())
       [GetPublicBalance 0 processAddress (Inr b),
        ConsoleLog (FundingProcessAddress processAddress (toFund spec)),
        Transfer (toFund spec) fundingAddress processAddress (Inr h),
        GetTransactionReceipt h (Inr True)]"
| transferThrew:
    "b < fundingThreshold spec \<Longrightarrow>
     fundingTrace fundingAddress processAddress spec r rest \<Longrightarrow>
     e \<noteq> NullOrUndefined \<Longrightarrow>
     fundingTrace fundingAddress processAddress spec r
       ([GetPublicBalance 0 processAddress (Inr b),
         ConsoleLog (FundingProcessAddress processAddress (toFund spec)),
         Transfer (toFund spec) fundingAddress processAddress (Inl e),
         ConsoleLog (FailedToFund e),
         SetTimeout 5000] @ rest)"
| receiptThrew:
    "b < fundingThreshold spec \<Longrightarrow>
     fundingTrace fundingAddress processAddress spec r rest \<Longrightarrow>
     e \<noteq> NullOrUndefined \<Longrightarrow>
     fundingTrace fundingAddress processAddress spec r
       ([GetPublicBalance 0 processAddress (Inr b),
         ConsoleLog (FundingProcessAddress processAddress (toFund spec)),
         Transfer (toFund spec) fundingAddress processAddress (Inr h),
         GetTransactionReceipt h (Inl e),
         ConsoleLog (FailedToFund e),
         SetTimeout 5000] @ rest)"
| transferRejected:
    "b < fundingThreshold spec \<Longrightarrow>
     fundingTrace fundingAddress processAddress spec (Thrown TypeError)
       [GetPublicBalance 0 processAddress (Inr b),
        ConsoleLog (FundingProcessAddress processAddress (toFund spec)),
        Transfer (toFund spec) fundingAddress processAddress (Inl NullOrUndefined)]"
| receiptRejected:
    "b < fundingThreshold spec \<Longrightarrow>
     fundingTrace fundingAddress processAddress spec (Thrown TypeError)
       [GetPublicBalance 0 processAddress (Inr b),
        ConsoleLog (FundingProcessAddress processAddress (toFund spec)),
        Transfer (toFund spec) fundingAddress processAddress (Inr h),
        GetTransactionReceipt h (Inl NullOrUndefined)]"
| receiptFalse:
    "b < fundingThreshold spec \<Longrightarrow>
     fundingTrace fundingAddress processAddress spec r rest \<Longrightarrow>
     fundingTrace fundingAddress processAddress spec r
       ([GetPublicBalance 0 processAddress (Inr b),
         ConsoleLog (FundingProcessAddress processAddress (toFund spec)),
         Transfer (toFund spec) fundingAddress processAddress (Inr h),
         GetTransactionReceipt h (Inr False),
         ConsoleLog (FailedToFund (Error ''receipt status is false.'')),
         SetTimeout 5000] @ rest)"

text \<open>
  A transfer is guarded when the two events before it are a poll of the process address
  that returned less than the threshold and the log line of the attempt. \<open>seen\<close> holds
  the events before the list, the latest first.
\<close>

fun guarded :: "address \<Rightarrow> address \<Rightarrow> fundingSpec \<Rightarrow> event list \<Rightarrow> event list \<Rightarrow> bool" where
  "guarded fa pa spec seen [] = True"
| "guarded fa pa spec seen (Transfer a f t x # es) =
     ((\<exists>b more. seen = ConsoleLog (FundingProcessAddress pa (toFund spec))
                         # GetPublicBalance 0 pa (Inr b) # more
                \<and> b < fundingThreshold spec)
      \<and> a = toFund spec \<and> f = fa \<and> t = pa
      \<and> guarded fa pa spec (Transfer a f t x # seen) es)"
| "guarded fa pa spec seen (e # es) = guarded fa pa spec (e # seen) es"

text \<open>
  What an iteration of the run loop that completes appends: the start line, the calls of
  the estimate, the funding loop, which begins with a poll of the process address, the
  start line again, the batch, the line of completion. The batch is the only batch event.
\<close>

inductive iterationTrace :: "address \<Rightarrow> manager \<Rightarrow> int \<Rightarrow> event list \<Rightarrow> bool"
  for processAddress manager runNumber where
  iteration:
    "list_all (\<lambda>e. \<not> isBatch e) budget \<Longrightarrow>
     list_all (\<lambda>e. \<not> isBatch e) funding \<Longrightarrow>
     iterationTrace processAddress manager runNumber
       ([ConsoleLog (StartingWasabiRun runNumber)] @ budget
        @ [GetPublicBalance 0 processAddress (Inr b)] @ funding
        @ [ConsoleLog (StartingWasabiRun runNumber),
           AgentManagerRun manager (Inr ()),
           ConsoleLog (TestRunCompleted runNumber)])"

section \<open>The required funding\<close>

lemma await_Returned:
  "await m k s = (Returned y, s'') \<longleftrightarrow> (\<exists>x s'. m s = (Returned x, s') \<and> k x s' = (Returned y, s''))"
  by (auto simp: await_def split: prod.splits outcome.splits)

lemma await_Thrown_step: "m s = (Thrown e, s') \<Longrightarrow> await m k s = (Thrown e, s')"
  by (simp add: await_def)

lemma bigint_div_nonneg: "0 \<le> a \<Longrightarrow> bigint_div a 100 = a div 100"
  by (cases "a = 0") (simp_all add: bigint_div_def)

lemma value_unknown:
  assumes "agentType \<noteq> ''uniswap''" "agentType \<noteq> ''element''" "agentType \<noteq> ''payment''"
  shows "getAgentRequiredFunding_value env agentType numAgents numTransfers assetIds s
           = (Thrown (Error (''Unknown agent type: '' @ agentType)), s)"
  using assms by (simp add: getAgentRequiredFunding_value_def throw_def)

lemma estimate_unknown:
  assumes "agentType \<noteq> ''uniswap''" "agentType \<noteq> ''element''" "agentType \<noteq> ''payment''"
  shows "getAgentRequiredFunding env agentType numAgents numTransfers assetIds loops s
           = (Thrown (Error (''Unknown agent type: '' @ agentType)), s)"
  unfolding getAgentRequiredFunding_def
  by (rule await_Thrown_step) (rule value_unknown [OF assms])

text \<open>
  Claim C9. For an agent type that is none of \<^verbatim>\<open>'uniswap'\<close>, \<^verbatim>\<open>'element'\<close> and \<^verbatim>\<open>'payment'\<close>,
  \<^verbatim>\<open>getAgentRequiredFunding\<close> throws the error "Unknown agent type" at once: the world and
  the trace are as before, so no collaborator was called. The run loop does not catch
  it: the first iteration logs its start and the loop ends with that error.
\<close>

theorem unsupported_agent_type:
  assumes "agentType \<noteq> ''uniswap''" "agentType \<noteq> ''element''" "agentType \<noteq> ''payment''"
  shows "getAgentRequiredFunding env agentType numAgents numTransfers assetIds loops (w, tr)
           = (Thrown (Error (''Unknown agent type: '' @ agentType)), (w, tr))
       \<and> (Some (Integer runNumber) \<noteq> loops \<longrightarrow>
            runLoop (Suc fuel) env fundingAddress processAddress agentType numAgents numTransfers
              numConcurrentTransfers assetIds loops runNumber (w, tr)
             = (Thrown (Error (''Unknown agent type: '' @ agentType)),
                (w, tr @ [ConsoleLog (StartingWasabiRun runNumber)])))"
  by (simp add: estimate_unknown [OF assms] runIteration_def await_def consoleLog_def)

theorem unsupported_agent_type_witness:
  "getAgentRequiredFunding (scripted 0 0 (Inr 0) (Inr 0)) ''bridge'' (Integer 2) (Integer 5)
       [Integer 0] None ([Balance 0], [])
     = (Thrown (Error ''Unknown agent type: bridge''), ([Balance 0], []))
   \<and> runLoop (Suc 0) (scripted 0 0 (Inr 0) (Inr 0)) (EthAddress 1) (EthAddress 2) ''bridge''
        (Integer 2) (Integer 5) (Integer 1) [Integer 0] None 0 ([Balance 0], [])
     = (Thrown (Error ''Unknown agent type: bridge''), ([Balance 0], [ConsoleLog (StartingWasabiRun 0)]))"
  using unsupported_agent_type [of "''bridge''" "scripted 0 0 (Inr 0) (Inr 0)" "Integer 2" "Integer 5"
      "[Integer 0]" None "[Balance 0]" "[]" 0 0 "EthAddress 1" "EthAddress 2" "Integer 1"]
  by simp

lemma estimate_uniswap:
  assumes "numAgents = Integer n" "(case loops of None \<Rightarrow> Integer 10 | Some l \<Rightarrow> l) = Integer l"
    and "uniswapGetRequiredFunding env numTransfers w = (Inr cost, w')"
  shows "getAgentRequiredFunding env ''uniswap'' numAgents numTransfers assetIds loops (w, tr)
     = (Returned \<lparr> fundingThreshold = (ethTransferEstimate + cost) * n,
                    toFund = bigint_div ((ethTransferEstimate + cost) * n * (100 + 5 * l)) 100 \<rparr>,
        (w', tr @ [UniswapGetRequiredFunding numTransfers (Inr cost)]))"
  using assms
  by (simp add: getAgentRequiredFunding_def getAgentRequiredFunding_value_def await_def call_def
      sync_def return_def BigInt_def)

lemma estimate_payment:
  assumes "numAgents = Integer n" "(case loops of None \<Rightarrow> Integer 10 | Some l \<Rightarrow> l) = Integer l"
    and "paymentGetRequiredFunding env (firstAsset assetIds) numTransfers w = (Inr cost, w')"
  shows "getAgentRequiredFunding env ''payment'' numAgents numTransfers assetIds loops (w, tr)
     = (Returned \<lparr> fundingThreshold = (ethTransferEstimate + cost) * n,
                    toFund = bigint_div ((ethTransferEstimate + cost) * n * (100 + 5 * l)) 100 \<rparr>,
        (w', tr @ [PaymentGetRequiredFunding (firstAsset assetIds) numTransfers (Inr cost)]))"
  using assms
  by (simp add: getAgentRequiredFunding_def getAgentRequiredFunding_value_def await_def call_def
      sync_def return_def BigInt_def)

lemma estimate_element:
  assumes "numAgents = Integer n" "(case loops of None \<Rightarrow> Integer 10 | Some l \<Rightarrow> l) = Integer l"
  shows "getAgentRequiredFunding env ''element'' numAgents numTransfers assetIds loops (w, tr)
     = (Returned \<lparr> fundingThreshold =
                      (ethTransferEstimate + elementGetRequiredFunding env) * n
                        + manualPaymentGetRequiredFunding env,
                    toFund = bigint_div
                      (((ethTransferEstimate + elementGetRequiredFunding env) * n
                         + manualPaymentGetRequiredFunding env) * (100 + 5 * l)) 100 \<rparr>,
        (w, tr))"
  using assms
  by (simp add: getAgentRequiredFunding_def getAgentRequiredFunding_value_def await_def call_def
      sync_def return_def BigInt_def)

text \<open>
  Claim C2, as the code has it. For each of the three agent types the threshold is the
  raw value of that type, with the base transfer cost \<open>21000 * 4 * 10 ^ 9\<close>, and the
  amount to fund is \<open>raw * (100 + 5 * loops) / 100\<close> in BigInt arithmetic, where the
  division truncates towards zero. That is rounding down whenever
  \<open>raw * (100 + 5 * loops)\<close> is not negative.
\<close>

theorem required_funding_amounts:
  assumes "numAgents = Integer n"
    and "(case loops of None \<Rightarrow> Integer 10 | Some l \<Rightarrow> l) = Integer l"
  shows "ethTransferEstimate = 21000 * 4000000000
     \<and> (uniswapGetRequiredFunding env numTransfers w = (Inr cost, w') \<longrightarrow>
          getAgentRequiredFunding env ''uniswap'' numAgents numTransfers assetIds loops (w, tr)
            = (Returned \<lparr> fundingThreshold = (ethTransferEstimate + cost) * n,
                           toFund = bigint_div ((ethTransferEstimate + cost) * n * (100 + 5 * l)) 100 \<rparr>,
               (w', tr @ [UniswapGetRequiredFunding numTransfers (Inr cost)])))
     \<and> (paymentGetRequiredFunding env (firstAsset assetIds) numTransfers w = (Inr cost, w') \<longrightarrow>
          getAgentRequiredFunding env ''payment'' numAgents numTransfers assetIds loops (w, tr)
            = (Returned \<lparr> fundingThreshold = (ethTransferEstimate + cost) * n,
                           toFund = bigint_div ((ethTransferEstimate + cost) * n * (100 + 5 * l)) 100 \<rparr>,
               (w', tr @ [PaymentGetRequiredFunding (firstAsset assetIds) numTransfers (Inr cost)])))
     \<and> getAgentRequiredFunding env ''element'' numAgents numTransfers assetIds loops (w, tr)
            = (Returned \<lparr> fundingThreshold =
                             (ethTransferEstimate + elementGetRequiredFunding env) * n
                               + manualPaymentGetRequiredFunding env,
                           toFund = bigint_div
                             (((ethTransferEstimate + elementGetRequiredFunding env) * n
                                + manualPaymentGetRequiredFunding env) * (100 + 5 * l)) 100 \<rparr>,
               (w, tr))
     \<and> (\<forall>raw. 0 \<le> raw * (100 + 5 * l) \<longrightarrow>
           bigint_div (raw * (100 + 5 * l)) 100 = raw * (100 + 5 * l) div 100)"
proof (intro conjI impI allI)
  show "ethTransferEstimate = 21000 * 4000000000"
    by (simp add: ethTransferEstimate_def)
next
  assume "uniswapGetRequiredFunding env numTransfers w = (Inr cost, w')"
  then show "getAgentRequiredFunding env ''uniswap'' numAgents numTransfers assetIds loops (w, tr)
            = (Returned \<lparr> fundingThreshold = (ethTransferEstimate + cost) * n,
                           toFund = bigint_div ((ethTransferEstimate + cost) * n * (100 + 5 * l)) 100 \<rparr>,
               (w', tr @ [UniswapGetRequiredFunding numTransfers (Inr cost)]))"
    by (rule estimate_uniswap [OF assms])
next
  assume "paymentGetRequiredFunding env (firstAsset assetIds) numTransfers w = (Inr cost, w')"
  then show "getAgentRequiredFunding env ''payment'' numAgents numTransfers assetIds loops (w, tr)
            = (Returned \<lparr> fundingThreshold = (ethTransferEstimate + cost) * n,
                           toFund = bigint_div ((ethTransferEstimate + cost) * n * (100 + 5 * l)) 100 \<rparr>,
               (w', tr @ [PaymentGetRequiredFunding (firstAsset assetIds) numTransfers (Inr cost)]))"
    by (rule estimate_payment [OF assms])
next
  show "getAgentRequiredFunding env ''element'' numAgents numTransfers assetIds loops (w, tr)
            = (Returned \<lparr> fundingThreshold =
                             (ethTransferEstimate + elementGetRequiredFunding env) * n
                               + manualPaymentGetRequiredFunding env,
                           toFund = bigint_div
                             (((ethTransferEstimate + elementGetRequiredFunding env) * n
                                + manualPaymentGetRequiredFunding env) * (100 + 5 * l)) 100 \<rparr>,
               (w, tr))"
    by (rule estimate_element [OF assms])
next
  fix raw :: int
  assume "0 \<le> raw * (100 + 5 * l)"
  then show "bigint_div (raw * (100 + 5 * l)) 100 = raw * (100 + 5 * l) div 100"
    by (rule bigint_div_nonneg)
qed

theorem required_funding_amounts_witness:
  "getAgentRequiredFunding (scripted 3 7 (Inr 11) (Inr 13)) ''uniswap'' (Integer 2) (Integer 5)
       [Integer 0] (Some (Integer 3)) ([], [])
     = (Returned \<lparr> fundingThreshold = 168000000000022, toFund = 193200000000025 \<rparr>,
        ([], [UniswapGetRequiredFunding (Integer 5) (Inr 11)]))
   \<and> getAgentRequiredFunding (scripted 3 7 (Inr 11) (Inr 13)) ''payment'' (Integer 2) (Integer 5)
       [Integer 0] (Some (Integer 3)) ([], [])
     = (Returned \<lparr> fundingThreshold = 168000000000026, toFund = 193200000000029 \<rparr>,
        ([], [PaymentGetRequiredFunding (Some (Integer 0)) (Integer 5) (Inr 13)]))
   \<and> getAgentRequiredFunding (scripted 3 7 (Inr 11) (Inr 13)) ''element'' (Integer 2) (Integer 5)
       [Integer 0] (Some (Integer 3)) ([], [])
     = (Returned \<lparr> fundingThreshold = 168000000000013, toFund = 193200000000014 \<rparr>, ([], []))
   \<and> 168000000000013 * (100 + 5 * 3) div 100 = (193200000000014 :: int)"
  using required_funding_amounts [of "Integer 2" 2 "Some (Integer 3)" 3
      "scripted 3 7 (Inr 11) (Inr 13)" "Integer 5" "[]" 11 "[]" "[Integer 0]" "[]"]
    required_funding_amounts [of "Integer 2" 2 "Some (Integer 3)" 3
      "scripted 3 7 (Inr 11) (Inr 13)" "Integer 5" "[]" 13 "[]" "[Integer 0]" "[]"]
  by (simp add: scripted_def firstAsset_def bigint_div_def ethTransferEstimate_def)

theorem required_funding_rounding_counterexample:
  "getAgentRequiredFunding (scripted 0 0 (Inr 0) (Inr 1)) ''payment'' (Integer 1) (Integer 1)
       [Integer 0] (Some (Integer (- 21))) ([], [])
     = (Returned \<lparr> fundingThreshold = 84000000000001, toFund = - 4200000000000 \<rparr>,
        ([], [PaymentGetRequiredFunding (Some (Integer 0)) (Integer 1) (Inr 1)]))
   \<and> 84000000000001 * (100 + 5 * (- 21)) div 100 = (- 4200000000001 :: int)"
  by (simp add: getAgentRequiredFunding_def getAgentRequiredFunding_value_def await_def call_def
      sync_def return_def BigInt_def scripted_def firstAsset_def bigint_div_def
      ethTransferEstimate_def)

lemma estimate_Returned:
  assumes "getAgentRequiredFunding env agentType numAgents numTransfers assetIds loops s
             = (Returned spec, s')"
  shows "\<exists>n l cost.
           numAgents = Integer n
         \<and> (case loops of None \<Rightarrow> Integer 10 | Some l \<Rightarrow> l) = Integer l
         \<and> toFund spec = bigint_div (fundingThreshold spec * (100 + 5 * l)) 100
         \<and> (agentType = ''uniswap'' \<and> fundingThreshold spec = (ethTransferEstimate + cost) * n
              \<and> (\<exists>w'. uniswapGetRequiredFunding env numTransfers (fst s) = (Inr cost, w'))
            \<or> agentType = ''payment'' \<and> fundingThreshold spec = (ethTransferEstimate + cost) * n
              \<and> (\<exists>w'. paymentGetRequiredFunding env (firstAsset assetIds) numTransfers (fst s)
                          = (Inr cost, w'))
            \<or> agentType = ''element''
              \<and> fundingThreshold spec = (ethTransferEstimate + elementGetRequiredFunding env) * n
                                           + manualPaymentGetRequiredFunding env)"
  using assms
  by (cases s)
     (auto simp: getAgentRequiredFunding_def getAgentRequiredFunding_value_def await_def call_def
        sync_def return_def throw_def BigInt_def
        split: if_splits prod.splits sum.splits number.splits option.splits)

text \<open>
  Claim C3, as the code has it. When the number of agents, the costs quoted by the agents
  and the number of loops (given, or the default 10) are not negative, the amounts that
  \<^verbatim>\<open>getAgentRequiredFunding\<close> returns satisfy \<open>0 \<le> fundingThreshold \<le> toFund\<close>.
\<close>

theorem funding_spec_invariant:
  assumes ret: "getAgentRequiredFunding env agentType numAgents numTransfers assetIds loops s
                  = (Returned spec, s')"
    and loops: "loops = None \<or> (\<exists>l. loops = Some (Integer l) \<and> 0 \<le> l)"
    and agents: "numAgents = Integer n" "0 \<le> n"
    and element: "0 \<le> elementGetRequiredFunding env" "0 \<le> manualPaymentGetRequiredFunding env"
    and uniswap: "\<And>t w cost w'. uniswapGetRequiredFunding env t w = (Inr cost, w') \<Longrightarrow> 0 \<le> cost"
    and payment: "\<And>a t w cost w'. paymentGetRequiredFunding env a t w = (Inr cost, w') \<Longrightarrow> 0 \<le> cost"
  shows "0 \<le> fundingThreshold spec \<and> fundingThreshold spec \<le> toFund spec"
proof -
  obtain n' l cost where n': "numAgents = Integer n'"
    and l: "(case loops of None \<Rightarrow> Integer 10 | Some l \<Rightarrow> l) = Integer l"
    and fund: "toFund spec = bigint_div (fundingThreshold spec * (100 + 5 * l)) 100"
    and kinds: "agentType = ''uniswap'' \<and> fundingThreshold spec = (ethTransferEstimate + cost) * n'
              \<and> (\<exists>w'. uniswapGetRequiredFunding env numTransfers (fst s) = (Inr cost, w'))
            \<or> agentType = ''payment'' \<and> fundingThreshold spec = (ethTransferEstimate + cost) * n'
              \<and> (\<exists>w'. paymentGetRequiredFunding env (firstAsset assetIds) numTransfers (fst s)
                          = (Inr cost, w'))
            \<or> agentType = ''element''
              \<and> fundingThreshold spec = (ethTransferEstimate + elementGetRequiredFunding env) * n'
                                           + manualPaymentGetRequiredFunding env"
    using estimate_Returned [OF ret] by blast
  have n: "n' = n" using n' agents by simp
  have l0: "0 \<le> l" using l loops by auto
  have e0: "0 \<le> ethTransferEstimate" by (simp add: ethTransferEstimate_def)
  have thr: "0 \<le> fundingThreshold spec"
    using kinds uniswap payment element e0 agents(2) n by auto
  have "fundingThreshold spec * 100 \<le> fundingThreshold spec * (100 + 5 * l)"
    using thr l0 by (intro mult_left_mono) auto
  then have "fundingThreshold spec \<le> fundingThreshold spec * (100 + 5 * l) div 100"
    by simp
  moreover have "0 \<le> fundingThreshold spec * (100 + 5 * l)"
    using thr l0 by simp
  ultimately show ?thesis
    using thr fund by (simp add: bigint_div_nonneg)
qed

theorem funding_spec_invariant_counterexample:
  "getAgentRequiredFunding (scripted 0 0 (Inr 0) (Inr 0)) ''element'' (Integer 1) (Integer 1) []
       (Some (Integer (- 1))) ([], [])
     = (Returned \<lparr> fundingThreshold = 84000000000000, toFund = 79800000000000 \<rparr>, ([], []))
   \<and> \<not> (84000000000000 \<le> (79800000000000 :: int))"
  by (simp add: getAgentRequiredFunding_def getAgentRequiredFunding_value_def await_def
      sync_def return_def BigInt_def scripted_def bigint_div_def ethTransferEstimate_def)

theorem funding_spec_invariant_witness:
  "getAgentRequiredFunding (scripted 3 7 (Inr 11) (Inr 13)) ''payment'' (Integer 2) (Integer 5)
       [Integer 0] (Some (Integer 3)) ([], [])
     = (Returned \<lparr> fundingThreshold = 168000000000026, toFund = 193200000000029 \<rparr>,
        ([], [PaymentGetRequiredFunding (Some (Integer 0)) (Integer 5) (Inr 13)]))
   \<and> 0 \<le> fundingThreshold \<lparr> fundingThreshold = 168000000000026, toFund = 193200000000029 \<rparr>
   \<and> fundingThreshold \<lparr> fundingThreshold = 168000000000026, toFund = 193200000000029 \<rparr>
       \<le> toFund \<lparr> fundingThreshold = 168000000000026, toFund = 193200000000029 \<rparr>"
proof -
  have ret: "getAgentRequiredFunding (scripted 3 7 (Inr 11) (Inr 13)) ''payment'' (Integer 2)
       (Integer 5) [Integer 0] (Some (Integer 3)) ([], [])
     = (Returned \<lparr> fundingThreshold = 168000000000026, toFund = 193200000000029 \<rparr>,
        ([], [PaymentGetRequiredFunding (Some (Integer 0)) (Integer 5) (Inr 13)]))"
    by (simp add: getAgentRequiredFunding_def getAgentRequiredFunding_value_def await_def call_def
        sync_def return_def BigInt_def scripted_def firstAsset_def bigint_div_def
        ethTransferEstimate_def)
  have loops: "Some (Integer 3) = None \<or> (\<exists>l. Some (Integer 3) = Some (Integer l) \<and> 0 \<le> l)"
    by simp
  have agents: "Integer 2 = Integer 2" "(0::int) \<le> 2"
    by simp_all
  have element: "0 \<le> elementGetRequiredFunding (scripted 3 7 (Inr 11) (Inr 13))"
    "0 \<le> manualPaymentGetRequiredFunding (scripted 3 7 (Inr 11) (Inr 13))"
    by (simp_all add: scripted_def)
  have uniswap: "\<And>t w cost w'.
      uniswapGetRequiredFunding (scripted 3 7 (Inr 11) (Inr 13)) t w = (Inr cost, w') \<Longrightarrow> 0 \<le> cost"
    by (simp add: scripted_def)
  have payment: "\<And>a t w cost w'.
      paymentGetRequiredFunding (scripted 3 7 (Inr 11) (Inr 13)) a t w = (Inr cost, w') \<Longrightarrow> 0 \<le> cost"
    by (simp add: scripted_def)
  show ?thesis
    using funding_spec_invariant [OF ret loops agents element uniswap payment] ret
    by simp
qed

section \<open>The funding loop\<close>

lemmas io_defs = await_def call_def consoleLog_def setTimeout_def throw_def return_def sync_def

declare fundingLoop.simps [simp del]

text \<open>One round of the loop, by what the poll and the attempt do.\<close>

lemma loop_poll_threw:
  "getPublicBalance env 0 pa w = (Inl e, w1) \<Longrightarrow>
   fundingLoop (Suc fuel) env fa pa spec (w, tr)
     = (Thrown e, (w1, tr @ [GetPublicBalance 0 pa (Inl e)]))"
  by (simp add: fundingLoop.simps io_defs)

lemma loop_funded:
  "getPublicBalance env 0 pa w = (Inr b, w1) \<Longrightarrow> fundingThreshold spec \<le> b \<Longrightarrow>
   fundingLoop (Suc fuel) env fa pa spec (w, tr)
     = (Returned (), (w1, tr @ [GetPublicBalance 0 pa (Inr b)]))"
  by (simp add: fundingLoop.simps io_defs)

lemma loop_topped_up:
  "getPublicBalance env 0 pa w = (Inr b, w1) \<Longrightarrow> b < fundingThreshold spec \<Longrightarrow>
   transfer env (toFund spec) fa pa w1 = (Inr h, w2) \<Longrightarrow>
   getTransactionReceipt env h w2 = (Inr True, w3) \<Longrightarrow>
   fundingLoop (Suc fuel) env fa pa spec (w, tr)
     = (Returned (), (w3, tr @ [GetPublicBalance 0 pa (Inr b),
                                ConsoleLog (FundingProcessAddress pa (toFund spec)),
                                Transfer (toFund spec) fa pa (Inr h),
                                GetTransactionReceipt h (Inr True)]))"
  by (simp add: fundingLoop.simps fundingAttempt_def io_defs)

lemma loop_transfer_threw:
  "getPublicBalance env 0 pa w = (Inr b, w1) \<Longrightarrow> b < fundingThreshold spec \<Longrightarrow>
   transfer env (toFund spec) fa pa w1 = (Inl e, w2) \<Longrightarrow> e \<noteq> NullOrUndefined \<Longrightarrow>
   fundingLoop (Suc fuel) env fa pa spec (w, tr)
     = fundingLoop fuel env fa pa spec
         (sleep env 5000 w2,
          tr @ [GetPublicBalance 0 pa (Inr b),
                ConsoleLog (FundingProcessAddress pa (toFund spec)),
                Transfer (toFund spec) fa pa (Inl e),
                ConsoleLog (FailedToFund e),
                SetTimeout 5000])"
  by (simp add: fundingLoop.simps fundingAttempt_def io_defs message_def split: error.splits)

lemma loop_receipt_threw:
  "getPublicBalance env 0 pa w = (Inr b, w1) \<Longrightarrow> b < fundingThreshold spec \<Longrightarrow>
   transfer env (toFund spec) fa pa w1 = (Inr h, w2) \<Longrightarrow>
   getTransactionReceipt env h w2 = (Inl e, w3) \<Longrightarrow> e \<noteq> NullOrUndefined \<Longrightarrow>
   fundingLoop (Suc fuel) env fa pa spec (w, tr)
     = fundingLoop fuel env fa pa spec
         (sleep env 5000 w3,
          tr @ [GetPublicBalance 0 pa (Inr b),
                ConsoleLog (FundingProcessAddress pa (toFund spec)),
                Transfer (toFund spec) fa pa (Inr h),
                GetTransactionReceipt h (Inl e),
                ConsoleLog (FailedToFund e),
                SetTimeout 5000])"
  by (simp add: fundingLoop.simps fundingAttempt_def io_defs message_def split: error.splits)

lemma loop_receipt_false:
  "getPublicBalance env 0 pa w = (Inr b, w1) \<Longrightarrow> b < fundingThreshold spec \<Longrightarrow>
   transfer env (toFund spec) fa pa w1 = (Inr h, w2) \<Longrightarrow>
   getTransactionReceipt env h w2 = (Inr False, w3) \<Longrightarrow>
   fundingLoop (Suc fuel) env fa pa spec (w, tr)
     = fundingLoop fuel env fa pa spec
         (sleep env 5000 w3,
          tr @ [GetPublicBalance 0 pa (Inr b),
                ConsoleLog (FundingProcessAddress pa (toFund spec)),
                Transfer (toFund spec) fa pa (Inr h),
                GetTransactionReceipt h (Inr False),
                ConsoleLog (FailedToFund (Error ''receipt status is false.'')),
                SetTimeout 5000])"
  by (simp add: fundingLoop.simps fundingAttempt_def io_defs message_def split: error.splits)

lemma loop_transfer_rejected:
  "getPublicBalance env 0 pa w = (Inr b, w1) \<Longrightarrow> b < fundingThreshold spec \<Longrightarrow>
   transfer env (toFund spec) fa pa w1 = (Inl NullOrUndefined, w2) \<Longrightarrow>
   fundingLoop (Suc fuel) env fa pa spec (w, tr)
     = (Thrown TypeError,
        (w2, tr @ [GetPublicBalance 0 pa (Inr b),
                   ConsoleLog (FundingProcessAddress pa (toFund spec)),
                   Transfer (toFund spec) fa pa (Inl NullOrUndefined)]))"
  by (simp add: fundingLoop.simps fundingAttempt_def io_defs message_def)

lemma loop_receipt_rejected:
  "getPublicBalance env 0 pa w = (Inr b, w1) \<Longrightarrow> b < fundingThreshold spec \<Longrightarrow>
   transfer env (toFund spec) fa pa w1 = (Inr h, w2) \<Longrightarrow>
   getTransactionReceipt env h w2 = (Inl NullOrUndefined, w3) \<Longrightarrow>
   fundingLoop (Suc fuel) env fa pa spec (w, tr)
     = (Thrown TypeError,
        (w3, tr @ [GetPublicBalance 0 pa (Inr b),
                   ConsoleLog (FundingProcessAddress pa (toFund spec)),
                   Transfer (toFund spec) fa pa (Inr h),
                   GetTransactionReceipt h (Inl NullOrUndefined)]))"
  by (simp add: fundingLoop.simps fundingAttempt_def io_defs message_def)

lemma fundingLoop_trace:
  "fundingLoop fuel env fa pa spec (w, tr) = (r, (w', tr')) \<Longrightarrow>
   \<exists>added. tr' = tr @ added \<and> fundingTrace fa pa spec r added"
proof (induction fuel arbitrary: w tr)
  case 0
  then show ?case by (auto simp: fundingLoop.simps intro: fundingTrace.stopped)
next
  case (Suc fuel)
  obtain p w1 where poll: "getPublicBalance env 0 pa w = (p, w1)"
    by (cases "getPublicBalance env 0 pa w")
  show ?case
  proof (cases p)
    case (Inl e)
    with poll Suc.prems show ?thesis
      by (auto simp: loop_poll_threw intro: fundingTrace.pollThrew)
  next
    case (Inr b)
    note b = this
    show ?thesis
    proof (cases "b < fundingThreshold spec")
      case False
      then have high: "fundingThreshold spec \<le> b" by simp
      show ?thesis
        using Suc.prems loop_funded [OF poll [unfolded b] high, of fuel fa tr]
          fundingTrace.funded [OF high, of fa pa]
        by auto
    next
      case low: True
      obtain t w2 where tx: "transfer env (toFund spec) fa pa w1 = (t, w2)"
        by (cases "transfer env (toFund spec) fa pa w1")
      show ?thesis
      proof (cases t)
        case (Inl e)
        show ?thesis
        proof (cases "e = NullOrUndefined")
        case True
        have tx': "transfer env (toFund spec) fa pa w1 = (Inl NullOrUndefined, w2)"
          using tx Inl True by simp
        show ?thesis
          using Suc.prems loop_transfer_rejected [OF poll [unfolded b] low tx', of fuel tr]
            fundingTrace.transferRejected [OF low, of fa pa]
          by auto
        next
        case obj: False
        from Suc.prems have "fundingLoop fuel env fa pa spec
             (sleep env 5000 w2,
              tr @ [GetPublicBalance 0 pa (Inr b),
                    ConsoleLog (FundingProcessAddress pa (toFund spec)),
                    Transfer (toFund spec) fa pa (Inl e),
                    ConsoleLog (FailedToFund e),
                    SetTimeout 5000]) = (r, (w', tr'))"
          using loop_transfer_threw [OF poll [unfolded b] low tx [unfolded Inl] obj] by simp
        from Suc.IH [OF this] obtain rest where "tr' = (tr @ [GetPublicBalance 0 pa (Inr b),
                    ConsoleLog (FundingProcessAddress pa (toFund spec)),
                    Transfer (toFund spec) fa pa (Inl e),
                    ConsoleLog (FailedToFund e),
                    SetTimeout 5000]) @ rest" and "fundingTrace fa pa spec r rest"
          by blast
        then show ?thesis
          using fundingTrace.transferThrew [OF low _ obj, of fa pa r rest] by auto
        qed
      next
        case (Inr h)
        note h = this
        obtain c w3 where rc: "getTransactionReceipt env h w2 = (c, w3)"
          by (cases "getTransactionReceipt env h w2")
        show ?thesis
        proof (cases c)
          case (Inl e)
          show ?thesis
          proof (cases "e = NullOrUndefined")
          case True
          have rc': "getTransactionReceipt env h w2 = (Inl NullOrUndefined, w3)"
            using rc Inl True by simp
          show ?thesis
            using Suc.prems
              loop_receipt_rejected [OF poll [unfolded b] low tx [unfolded h] rc', of fuel tr]
              fundingTrace.receiptRejected [OF low, of fa pa h]
            by auto
          next
          case obj: False
          from Suc.prems have "fundingLoop fuel env fa pa spec
             (sleep env 5000 w3,
              tr @ [GetPublicBalance 0 pa (Inr b),
                    ConsoleLog (FundingProcessAddress pa (toFund spec)),
                    Transfer (toFund spec) fa pa (Inr h),
                    GetTransactionReceipt h (Inl e),
                    ConsoleLog (FailedToFund e),
                    SetTimeout 5000]) = (r, (w', tr'))"
            using loop_receipt_threw [OF poll [unfolded b] low tx [unfolded h] rc [unfolded Inl] obj]
            by simp
          from Suc.IH [OF this] obtain rest where "tr' = (tr @ [GetPublicBalance 0 pa (Inr b),
                    ConsoleLog (FundingProcessAddress pa (toFund spec)),
                    Transfer (toFund spec) fa pa (Inr h),
                    GetTransactionReceipt h (Inl e),
                    ConsoleLog (FailedToFund e),
                    SetTimeout 5000]) @ rest" and "fundingTrace fa pa spec r rest"
            by blast
          then show ?thesis
            using fundingTrace.receiptThrew [OF low _ obj, of fa pa r rest h] by auto
          qed
        next
          case (Inr status)
          show ?thesis
          proof (cases status)
            case True
            have rc': "getTransactionReceipt env h w2 = (Inr True, w3)"
              using rc Inr True by simp
            show ?thesis
              using Suc.prems loop_topped_up [OF poll [unfolded b] low tx [unfolded h] rc', of fuel tr]
                fundingTrace.toppedUp [OF low, of fa pa h]
              by auto
          next
            case False
            have rc': "getTransactionReceipt env h w2 = (Inr False, w3)"
              using rc Inr False by simp
            from Suc.prems have "fundingLoop fuel env fa pa spec
             (sleep env 5000 w3,
              tr @ [GetPublicBalance 0 pa (Inr b),
                    ConsoleLog (FundingProcessAddress pa (toFund spec)),
                    Transfer (toFund spec) fa pa (Inr h),
                    GetTransactionReceipt h (Inr False),
                    ConsoleLog (FailedToFund (Error ''receipt status is false.'')),
                    SetTimeout 5000]) = (r, (w', tr'))"
              using loop_receipt_false [OF poll [unfolded b] low tx [unfolded h] rc', of fuel tr]
              by simp
            from Suc.IH [OF this] obtain rest where "tr' = (tr @ [GetPublicBalance 0 pa (Inr b),
                    ConsoleLog (FundingProcessAddress pa (toFund spec)),
                    Transfer (toFund spec) fa pa (Inr h),
                    GetTransactionReceipt h (Inr False),
                    ConsoleLog (FailedToFund (Error ''receipt status is false.'')),
                    SetTimeout 5000]) @ rest" and "fundingTrace fa pa spec r rest"
              by blast
            then show ?thesis
              using fundingTrace.receiptFalse [OF low, of fa pa r rest h] by auto
          qed
        qed
      qed
    qed
  qed
qed

lemma ends_append: "\<exists>pre. rest = pre @ xs \<Longrightarrow> \<exists>pre. ys @ rest = pre @ xs"
  by (metis append.assoc)

lemma fundingTrace_Returned:
  "fundingTrace fa pa spec r added \<Longrightarrow> r = Returned () \<Longrightarrow>
     (\<exists>b. fundingThreshold spec \<le> b \<and> (\<exists>pre. added = pre @ [GetPublicBalance 0 pa (Inr b)]))
   \<or> (\<exists>h. \<exists>pre. added = pre @ [Transfer (toFund spec) fa pa (Inr h),
                                  GetTransactionReceipt h (Inr True)])"
proof (induction rule: fundingTrace.induct)
  case (funded b)
  then show ?case by auto
next
  case (toppedUp b h)
  have "[GetPublicBalance 0 pa (Inr b), ConsoleLog (FundingProcessAddress pa (toFund spec)),
         Transfer (toFund spec) fa pa (Inr h), GetTransactionReceipt h (Inr True)]
      = [GetPublicBalance 0 pa (Inr b), ConsoleLog (FundingProcessAddress pa (toFund spec))]
        @ [Transfer (toFund spec) fa pa (Inr h), GetTransactionReceipt h (Inr True)]"
    by simp
  then show ?case by blast
next
  case (transferThrew b r rest e)
  then show ?case using ends_append by blast
next
  case (receiptThrew b r rest h e)
  then show ?case using ends_append by blast
next
  case (receiptFalse b r rest h)
  then show ?case using ends_append by blast
qed simp_all



lemma fundingTrace_guarded:
  "fundingTrace fa pa spec r added \<Longrightarrow> guarded fa pa spec seen added"
  by (induction arbitrary: seen rule: fundingTrace.induct) simp_all

lemma guarded_split:
  "guarded fa pa spec seen (pre @ Transfer a f t x # post) \<Longrightarrow>
     (\<exists>b more. rev pre @ seen = ConsoleLog (FundingProcessAddress pa (toFund spec))
                                   # GetPublicBalance 0 pa (Inr b) # more
              \<and> b < fundingThreshold spec)
     \<and> a = toFund spec \<and> f = fa \<and> t = pa"
proof (induction pre arbitrary: seen)
  case Nil
  then show ?case by simp
next
  case (Cons e pre)
  then have "guarded fa pa spec (e # seen) (pre @ Transfer a f t x # post)"
    by (cases e) (simp_all split: if_splits)
  from Cons.IH [OF this] show ?case by simp
qed

lemma fundingTrace_guard:
  assumes "fundingTrace fa pa spec r added" and "added = pre @ Transfer a f t x # post"
  shows "\<exists>pre' b. pre = pre' @ [GetPublicBalance 0 pa (Inr b),
                                 ConsoleLog (FundingProcessAddress pa (toFund spec))]
            \<and> b < fundingThreshold spec \<and> a = toFund spec \<and> f = fa \<and> t = pa"
proof -
  have "guarded fa pa spec [] (pre @ Transfer a f t x # post)"
    using fundingTrace_guarded [OF assms(1)] assms(2) by simp
  from guarded_split [OF this] obtain b more
    where rv: "rev pre = ConsoleLog (FundingProcessAddress pa (toFund spec))
                           # GetPublicBalance 0 pa (Inr b) # more"
      and rest: "b < fundingThreshold spec" "a = toFund spec" "f = fa" "t = pa"
    by auto
  have "pre = rev more @ [GetPublicBalance 0 pa (Inr b),
                          ConsoleLog (FundingProcessAddress pa (toFund spec))]"
    using arg_cong [OF rv, of rev] by simp
  with rest show ?thesis by blast
qed

lemma attempt_trace:
  "fundingAttempt env fa pa spec (w, tr) = (r, (w', tr')) \<Longrightarrow>
     length (filter isTransfer tr') = Suc (length (filter isTransfer tr))"
  by (auto simp: fundingAttempt_def io_defs split: prod.splits sum.splits if_splits)

lemma loop_attempt_failed:
  "getPublicBalance env 0 pa w = (Inr b, w1) \<Longrightarrow> b < fundingThreshold spec \<Longrightarrow>
   fundingAttempt env fa pa spec (w1, tr @ [GetPublicBalance 0 pa (Inr b)]) = (Thrown e, (w2, tr2)) \<Longrightarrow>
   e \<noteq> NullOrUndefined \<Longrightarrow>
   fundingLoop (Suc fuel) env fa pa spec (w, tr)
     = fundingLoop fuel env fa pa spec
         (sleep env 5000 w2, tr2 @ [ConsoleLog (FailedToFund e), SetTimeout 5000])"
  by (simp add: fundingLoop.simps io_defs message_def split: error.splits)

lemma fundingLoop_stuck:
  assumes polls: "\<And>w. \<exists>b w1. getPublicBalance env 0 pa w = (Inr b, w1) \<and> b < fundingThreshold spec"
    and attempts: "\<And>s. \<exists>e s'. fundingAttempt env fa pa spec s = (Thrown e, s') \<and> e \<noteq> NullOrUndefined"
  shows "fst (fundingLoop fuel env fa pa spec (w, tr)) = OutOfFuel
       \<and> length (filter isTransfer (snd (snd (fundingLoop fuel env fa pa spec (w, tr)))))
           = length (filter isTransfer tr) + fuel"
proof (induction fuel arbitrary: w tr)
  case 0
  show ?case by (simp add: fundingLoop.simps)
next
  case (Suc fuel)
  obtain b w1 where poll: "getPublicBalance env 0 pa w = (Inr b, w1)"
    and low: "b < fundingThreshold spec"
    using polls by blast
  obtain e w2 tr2
    where att: "fundingAttempt env fa pa spec (w1, tr @ [GetPublicBalance 0 pa (Inr b)])
                  = (Thrown e, (w2, tr2))"
    and obj: "e \<noteq> NullOrUndefined"
    using attempts [of "(w1, tr @ [GetPublicBalance 0 pa (Inr b)])"] by (metis prod.collapse)
  have n: "length (filter isTransfer tr2) = Suc (length (filter isTransfer tr))"
    using attempt_trace [OF att] by simp
  show ?case
    unfolding loop_attempt_failed [OF poll low att obj]
    using Suc.IH [of "sleep env 5000 w2" "tr2 @ [ConsoleLog (FailedToFund e), SetTimeout 5000]"] n
    by simp
qed





lemmas run_defs = run_def runSetup_def initSdk_def fundingAccount_def processKey_def runLoop.simps
  runIteration_def getAgentRequiredFunding_def getAgentRequiredFunding_value_def agentManager_def
  refund_def toBaseUnits_def fundingLoop.simps fundingAttempt_def io_defs message_def BigInt_def
  bigint_div_def ethTransferEstimate_def firstAsset_def Let_def

lemmas scripted_defs = scripted_def reply_def fundingLoop.simps fundingAttempt_def io_defs message_def

text \<open>
  Claim C1, as the code has it. The funding loop returns in one of two ways: a poll of the
  process address gave a balance that is at least the threshold, and nothing was done
  after that poll; or a transfer of \<open>toFund\<close> was sent and its receipt reported success, and
  the loop left by \<^verbatim>\<open>break\<close> without another poll. There is no bound on the rounds: where
  every poll is below the threshold and every attempt fails, with anything thrown but
  \<^verbatim>\<open>null\<close> or \<^verbatim>\<open>undefined\<close>, the loop is still running after any number of rounds, one
  transfer attempted in each.
\<close>

theorem funding_loop_exit:
  "(fundingLoop fuel env fa pa spec (w, tr) = (Returned (), (w', tr')) \<longrightarrow>
      (\<exists>b pre. fundingThreshold spec \<le> b \<and> tr' = tr @ pre @ [GetPublicBalance 0 pa (Inr b)])
    \<or> (\<exists>h pre. tr' = tr @ pre @ [Transfer (toFund spec) fa pa (Inr h),
                                   GetTransactionReceipt h (Inr True)]))
   \<and> ((\<forall>w. \<exists>b w1. getPublicBalance env 0 pa w = (Inr b, w1) \<and> b < fundingThreshold spec)
        \<and> (\<forall>s. \<exists>e s'. fundingAttempt env fa pa spec s = (Thrown e, s') \<and> e \<noteq> NullOrUndefined) \<longrightarrow>
      fst (fundingLoop fuel env fa pa spec (w, tr)) = OutOfFuel
      \<and> length (filter isTransfer (snd (snd (fundingLoop fuel env fa pa spec (w, tr)))))
          = length (filter isTransfer tr) + fuel)"
proof (intro conjI impI)
  assume "fundingLoop fuel env fa pa spec (w, tr) = (Returned (), (w', tr'))"
  from fundingLoop_trace [OF this] obtain added
    where tr': "tr' = tr @ added" and shape: "fundingTrace fa pa spec (Returned ()) added"
    by blast
  from fundingTrace_Returned [OF shape] tr'
  show "(\<exists>b pre. fundingThreshold spec \<le> b \<and> tr' = tr @ pre @ [GetPublicBalance 0 pa (Inr b)])
      \<or> (\<exists>h pre. tr' = tr @ pre @ [Transfer (toFund spec) fa pa (Inr h),
                                     GetTransactionReceipt h (Inr True)])"
    by auto
next
  assume "(\<forall>w. \<exists>b w1. getPublicBalance env 0 pa w = (Inr b, w1) \<and> b < fundingThreshold spec)
        \<and> (\<forall>s. \<exists>e s'. fundingAttempt env fa pa spec s = (Thrown e, s') \<and> e \<noteq> NullOrUndefined)"
  then show "fst (fundingLoop fuel env fa pa spec (w, tr)) = OutOfFuel"
    using fundingLoop_stuck [of env pa spec fa fuel w tr] by blast
next
  assume "(\<forall>w. \<exists>b w1. getPublicBalance env 0 pa w = (Inr b, w1) \<and> b < fundingThreshold spec)
        \<and> (\<forall>s. \<exists>e s'. fundingAttempt env fa pa spec s = (Thrown e, s') \<and> e \<noteq> NullOrUndefined)"
  then show "length (filter isTransfer (snd (snd (fundingLoop fuel env fa pa spec (w, tr)))))
          = length (filter isTransfer tr) + fuel"
    using fundingLoop_stuck [of env pa spec fa fuel w tr] by blast
qed

theorem funding_loop_exit_counterexample:
  "fundingLoop (Suc 0) (scripted 0 0 (Inr 0) (Inr 13)) (EthAddress 1) (EthAddress 2)
       \<lparr> fundingThreshold = 168000000000026, toFund = 193200000000029 \<rparr>
       ([Balance 0, Hash 7, Status True], [])
     = (Returned (),
        ([], [GetPublicBalance 0 (EthAddress 2) (Inr 0),
              ConsoleLog (FundingProcessAddress (EthAddress 2) 193200000000029),
              Transfer 193200000000029 (EthAddress 1) (EthAddress 2) (Inr 7),
              GetTransactionReceipt 7 (Inr True)]))
   \<and> \<not> (168000000000026 \<le> (0 :: int))"
  by (simp add: scripted_defs)

theorem funding_loop_exit_witness:
  "fundingLoop (Suc (Suc 0)) (scripted 0 0 (Inr 0) (Inr 13)) (EthAddress 1) (EthAddress 2)
       \<lparr> fundingThreshold = 168000000000026, toFund = 193200000000029 \<rparr>
       ([Balance 0, Fails (Error ''nonce too low''), Balance 168000000000026], [])
     = (Returned (),
        ([], [] @ [GetPublicBalance 0 (EthAddress 2) (Inr 0),
              ConsoleLog (FundingProcessAddress (EthAddress 2) 193200000000029),
              Transfer 193200000000029 (EthAddress 1) (EthAddress 2) (Inl (Error ''nonce too low'')),
              ConsoleLog (FailedToFund (Error ''nonce too low'')),
              SetTimeout 5000]
            @ [GetPublicBalance 0 (EthAddress 2) (Inr 168000000000026)]))
   \<and> fst (fundingLoop 3 (steady (Inr 0) (Inl (Error ''nonce too low'')) (Inr True))
            (EthAddress 1) (EthAddress 2)
            \<lparr> fundingThreshold = 168000000000026, toFund = 193200000000029 \<rparr> ((), [])) = OutOfFuel
   \<and> length (filter isTransfer (snd (snd
          (fundingLoop 3 (steady (Inr 0) (Inl (Error ''nonce too low'')) (Inr True))
            (EthAddress 1) (EthAddress 2)
            \<lparr> fundingThreshold = 168000000000026, toFund = 193200000000029 \<rparr> ((), []))))) = 3"
proof -
  have stuck: "(\<forall>w. \<exists>b w1. getPublicBalance (steady (Inr 0) (Inl (Error ''nonce too low'')) (Inr True))
                   0 (EthAddress 2) w = (Inr b, w1)
                 \<and> b < fundingThreshold \<lparr> fundingThreshold = 168000000000026, toFund = 193200000000029 \<rparr>)
     \<and> (\<forall>s. \<exists>e s'. fundingAttempt (steady (Inr 0) (Inl (Error ''nonce too low'')) (Inr True))
                   (EthAddress 1) (EthAddress 2)
                   \<lparr> fundingThreshold = 168000000000026, toFund = 193200000000029 \<rparr> s = (Thrown e, s')
                 \<and> e \<noteq> NullOrUndefined)"
    by (simp add: steady_def fundingAttempt_def io_defs split: prod.splits)
  have run: "fundingLoop (Suc (Suc 0)) (scripted 0 0 (Inr 0) (Inr 13)) (EthAddress 1) (EthAddress 2)
       \<lparr> fundingThreshold = 168000000000026, toFund = 193200000000029 \<rparr>
       ([Balance 0, Fails (Error ''nonce too low''), Balance 168000000000026], [])
     = (Returned (),
        ([], [GetPublicBalance 0 (EthAddress 2) (Inr 0),
              ConsoleLog (FundingProcessAddress (EthAddress 2) 193200000000029),
              Transfer 193200000000029 (EthAddress 1) (EthAddress 2) (Inl (Error ''nonce too low'')),
              ConsoleLog (FailedToFund (Error ''nonce too low'')),
              SetTimeout 5000,
              GetPublicBalance 0 (EthAddress 2) (Inr 168000000000026)]))"
    by (simp add: scripted_defs)
  show ?thesis
    using funding_loop_exit [of 3 "steady (Inr 0) (Inl (Error ''nonce too low'')) (Inr True)"
        "EthAddress 1" "EthAddress 2"
        "\<lparr> fundingThreshold = 168000000000026, toFund = 193200000000029 \<rparr>" "()" "[]"]
      funding_loop_exit [of "Suc (Suc 0)" "scripted 0 0 (Inr 0) (Inr 13)"
        "EthAddress 1" "EthAddress 2"
        "\<lparr> fundingThreshold = 168000000000026, toFund = 193200000000029 \<rparr>"
        "[Balance 0, Fails (Error ''nonce too low''), Balance 168000000000026]" "[]" "[]"
        "[GetPublicBalance 0 (EthAddress 2) (Inr 0),
              ConsoleLog (FundingProcessAddress (EthAddress 2) 193200000000029),
              Transfer 193200000000029 (EthAddress 1) (EthAddress 2) (Inl (Error ''nonce too low'')),
              ConsoleLog (FailedToFund (Error ''nonce too low'')),
              SetTimeout 5000,
              GetPublicBalance 0 (EthAddress 2) (Inr 168000000000026)]"]
      stuck run
    by simp
qed




lemma scripted_attempt_2:
  "fundingAttempt (scripted 0 0 (Inr 0) (Inr 13)) (EthAddress 1) (EthAddress 2)
        \<lparr> fundingThreshold = 168000000000026, toFund = 193200000000029 \<rparr>
        ([Hash 7, Fails (Error ''timeout''), Balance 168000000000026],
         [] @ [GetPublicBalance 0 (EthAddress 2) (Inr 0)])
      = (Thrown (Error ''timeout''),
         ([Balance 168000000000026],
          [GetPublicBalance 0 (EthAddress 2) (Inr 0),
           ConsoleLog (FundingProcessAddress (EthAddress 2) 193200000000029),
           Transfer 193200000000029 (EthAddress 1) (EthAddress 2) (Inr 7),
           GetTransactionReceipt 7 (Inl (Error ''timeout''))]))"
  by (simp add: scripted_defs)

text \<open>
  Claim C8. In what the funding loop does, every transfer comes directly after a poll of
  the process address that returned less than the threshold and the log line of the
  attempt, and it is a transfer of \<open>toFund\<close> from the funding address to the process
  address. A poll that returns at least the threshold ends the loop with nothing after
  it: when it is the first poll, no transfer is sent at all; when it is the poll after
  the sleep that follows a failed attempt, no further transfer is sent. The sleep follows
  an attempt that threw anything but \<^verbatim>\<open>null\<close> or \<^verbatim>\<open>undefined\<close>.
\<close>

theorem transfer_needs_low_poll:
  "(fundingLoop fuel env fa pa spec (w, tr) = (r, (w', tr')) \<longrightarrow>
      (\<exists>added. tr' = tr @ added
         \<and> (\<forall>pre a f t x post. added = pre @ Transfer a f t x # post \<longrightarrow>
               (\<exists>pre' b. pre = pre' @ [GetPublicBalance 0 pa (Inr b),
                                        ConsoleLog (FundingProcessAddress pa (toFund spec))]
                   \<and> b < fundingThreshold spec \<and> a = toFund spec \<and> f = fa \<and> t = pa))))
   \<and> (getPublicBalance env 0 pa w = (Inr b, w1) \<and> fundingThreshold spec \<le> b \<longrightarrow>
        fundingLoop (Suc fuel) env fa pa spec (w, tr)
          = (Returned (), (w1, tr @ [GetPublicBalance 0 pa (Inr b)])))
   \<and> (getPublicBalance env 0 pa w = (Inr b, w1) \<and> b < fundingThreshold spec
        \<and> fundingAttempt env fa pa spec (w1, tr @ [GetPublicBalance 0 pa (Inr b)])
             = (Thrown e, (w2, tr2))
        \<and> e \<noteq> NullOrUndefined
        \<and> getPublicBalance env 0 pa (sleep env 5000 w2) = (Inr b', w3)
        \<and> fundingThreshold spec \<le> b' \<longrightarrow>
        fundingLoop (Suc (Suc fuel)) env fa pa spec (w, tr)
          = (Returned (),
             (w3, tr2 @ [ConsoleLog (FailedToFund e), SetTimeout 5000,
                         GetPublicBalance 0 pa (Inr b')])))"
proof (intro conjI impI)
  assume "fundingLoop fuel env fa pa spec (w, tr) = (r, (w', tr'))"
  from fundingLoop_trace [OF this] obtain added
    where tr': "tr' = tr @ added" and shape: "fundingTrace fa pa spec r added"
    by blast
  show "\<exists>added. tr' = tr @ added
         \<and> (\<forall>pre a f t x post. added = pre @ Transfer a f t x # post \<longrightarrow>
               (\<exists>pre' b. pre = pre' @ [GetPublicBalance 0 pa (Inr b),
                                        ConsoleLog (FundingProcessAddress pa (toFund spec))]
                   \<and> b < fundingThreshold spec \<and> a = toFund spec \<and> f = fa \<and> t = pa))"
    using tr' fundingTrace_guard [OF shape] by blast
next
  assume "getPublicBalance env 0 pa w = (Inr b, w1) \<and> fundingThreshold spec \<le> b"
  then have "getPublicBalance env 0 pa w = (Inr b, w1)" and "fundingThreshold spec \<le> b"
    by simp_all
  then show "fundingLoop (Suc fuel) env fa pa spec (w, tr)
          = (Returned (), (w1, tr @ [GetPublicBalance 0 pa (Inr b)]))"
    by (rule loop_funded)
next
  assume a: "getPublicBalance env 0 pa w = (Inr b, w1) \<and> b < fundingThreshold spec
        \<and> fundingAttempt env fa pa spec (w1, tr @ [GetPublicBalance 0 pa (Inr b)])
             = (Thrown e, (w2, tr2))
        \<and> e \<noteq> NullOrUndefined
        \<and> getPublicBalance env 0 pa (sleep env 5000 w2) = (Inr b', w3)
        \<and> fundingThreshold spec \<le> b'"
  then have poll: "getPublicBalance env 0 pa w = (Inr b, w1)"
    and low: "b < fundingThreshold spec"
    and att: "fundingAttempt env fa pa spec (w1, tr @ [GetPublicBalance 0 pa (Inr b)])
                = (Thrown e, (w2, tr2))"
    and obj: "e \<noteq> NullOrUndefined"
    and poll': "getPublicBalance env 0 pa (sleep env 5000 w2) = (Inr b', w3)"
    and high: "fundingThreshold spec \<le> b'"
    by simp_all
  have "fundingLoop (Suc (Suc fuel)) env fa pa spec (w, tr)
      = fundingLoop (Suc fuel) env fa pa spec
          (sleep env 5000 w2, tr2 @ [ConsoleLog (FailedToFund e), SetTimeout 5000])"
    by (rule loop_attempt_failed [OF poll low att obj])
  also have "\<dots> = (Returned (),
             (w3, (tr2 @ [ConsoleLog (FailedToFund e), SetTimeout 5000])
                  @ [GetPublicBalance 0 pa (Inr b')]))"
    by (rule loop_funded [OF poll' high])
  finally show "fundingLoop (Suc (Suc fuel)) env fa pa spec (w, tr)
          = (Returned (),
             (w3, tr2 @ [ConsoleLog (FailedToFund e), SetTimeout 5000,
                         GetPublicBalance 0 pa (Inr b')]))"
    by simp
qed

theorem transfer_needs_low_poll_witness:
  "fundingLoop (Suc 0) (scripted 0 0 (Inr 0) (Inr 13)) (EthAddress 1) (EthAddress 2)
       \<lparr> fundingThreshold = 168000000000026, toFund = 193200000000029 \<rparr>
       ([Balance 168000000000026], [])
     = (Returned (), ([], [GetPublicBalance 0 (EthAddress 2) (Inr 168000000000026)]))
   \<and> fundingLoop (Suc (Suc 0)) (scripted 0 0 (Inr 0) (Inr 13)) (EthAddress 1) (EthAddress 2)
       \<lparr> fundingThreshold = 168000000000026, toFund = 193200000000029 \<rparr>
       ([Balance 0, Hash 7, Fails (Error ''timeout''), Balance 168000000000026], [])
     = (Returned (),
        ([], [GetPublicBalance 0 (EthAddress 2) (Inr 0),
              ConsoleLog (FundingProcessAddress (EthAddress 2) 193200000000029),
              Transfer 193200000000029 (EthAddress 1) (EthAddress 2) (Inr 7),
              GetTransactionReceipt 7 (Inl (Error ''timeout'')),
              ConsoleLog (FailedToFund (Error ''timeout'')),
              SetTimeout 5000,
              GetPublicBalance 0 (EthAddress 2) (Inr 168000000000026)]))"
  using transfer_needs_low_poll [where env = "scripted 0 0 (Inr 0) (Inr 13)" and pa = "EthAddress 2"
        and fa = "EthAddress 1" and tr = "[]" and fuel = 0
        and spec = "\<lparr> fundingThreshold = 168000000000026, toFund = 193200000000029 \<rparr>"
        and w = "[Balance 168000000000026]" and b = 168000000000026 and ?w1.0 = "[]"
        and r = "Returned ()" and w' = "[]"
        and tr' = "[GetPublicBalance 0 (EthAddress 2) (Inr 168000000000026)]"]
    transfer_needs_low_poll [where env = "scripted 0 0 (Inr 0) (Inr 13)" and pa = "EthAddress 2"
        and fa = "EthAddress 1" and tr = "[]" and fuel = 0
        and spec = "\<lparr> fundingThreshold = 168000000000026, toFund = 193200000000029 \<rparr>"
        and w = "[Balance 0, Hash 7, Fails (Error ''timeout''), Balance 168000000000026]"
        and b = 0 and ?w1.0 = "[Hash 7, Fails (Error ''timeout''), Balance 168000000000026]"
        and e = "Error ''timeout''" and ?w2.0 = "[Balance 168000000000026]"
        and ?tr2.0 = "[GetPublicBalance 0 (EthAddress 2) (Inr 0),
           ConsoleLog (FundingProcessAddress (EthAddress 2) 193200000000029),
           Transfer 193200000000029 (EthAddress 1) (EthAddress 2) (Inr 7),
           GetTransactionReceipt 7 (Inl (Error ''timeout''))]"
        and b' = 168000000000026 and ?w3.0 = "[]"]
    scripted_attempt_2
  by (simp add: scripted_def reply_def)

section \<open>The run loop and the teardown\<close>

lemma emitsD:
  "emits P m \<Longrightarrow> m (w, tr) = (r, (w', tr')) \<Longrightarrow> \<exists>added. tr' = tr @ added \<and> list_all P added"
  unfolding emits_def by blast

lemma emits_return [intro!]: "emits P (return x)"
  by (simp add: emits_def return_def)

lemma emits_throw [intro!]: "emits P (throw e)"
  by (simp add: emits_def throw_def)

lemma emits_sync [intro!]: "emits P (sync r)"
  by (simp add: emits_def sync_def)

lemma emits_consoleLog: "P (ConsoleLog l) \<Longrightarrow> emits P (consoleLog l)"
  by (auto simp: emits_def consoleLog_def)

lemma emits_call: "(\<And>r. P (ev r)) \<Longrightarrow> emits P (call f ev)"
  by (auto simp: emits_def call_def split: prod.splits)

lemma emits_await:
  assumes m: "emits P m" and k: "\<And>x. emits P (k x)"
  shows "emits P (await m k)"
  unfolding emits_def
proof (intro allI impI)
  fix w tr r w' tr'
  assume run: "await m k (w, tr) = (r, (w', tr'))"
  obtain r1 w1 tr1 where m1: "m (w, tr) = (r1, (w1, tr1))"
    by (metis prod.collapse)
  from emitsD [OF m m1] obtain a1 where a1: "tr1 = tr @ a1" "list_all P a1"
    by blast
  show "\<exists>added. tr' = tr @ added \<and> list_all P added"
  proof (cases r1)
    case (Returned x)
    with run m1 have "k x (w1, tr1) = (r, (w', tr'))"
      by (simp add: await_def)
    from emitsD [OF k this] obtain a2 where "tr' = tr1 @ a2" "list_all P a2"
      by blast
    with a1 show ?thesis by auto
  next
    case (Thrown e)
    with run m1 a1 show ?thesis by (auto simp: await_def)
  next
    case OutOfFuel
    with run m1 a1 show ?thesis by (auto simp: await_def)
  qed
qed

lemma emits_if: "emits P m \<Longrightarrow> emits P n \<Longrightarrow> emits P (if c then m else n)"
  by simp

lemma fundingTrace_all:
  assumes "fundingTrace fa pa spec r added"
    and "\<And>x. P (GetPublicBalance 0 pa x)"
    and "P (ConsoleLog (FundingProcessAddress pa (toFund spec)))"
    and "\<And>x. P (Transfer (toFund spec) fa pa x)"
    and "\<And>h x. P (GetTransactionReceipt h x)"
    and "\<And>e. P (ConsoleLog (FailedToFund e))"
    and "P (SetTimeout 5000)"
  shows "list_all P added"
  using assms by (induction rule: fundingTrace.induct) simp_all

lemma emits_fundingLoop:
  assumes "\<And>x. P (GetPublicBalance 0 pa x)"
    and "P (ConsoleLog (FundingProcessAddress pa (toFund spec)))"
    and "\<And>x. P (Transfer (toFund spec) fa pa x)"
    and "\<And>h x. P (GetTransactionReceipt h x)"
    and "\<And>e. P (ConsoleLog (FailedToFund e))"
    and "P (SetTimeout 5000)"
  shows "emits P (fundingLoop fuel env fa pa spec)"
  unfolding emits_def
proof (intro allI impI)
  fix w tr r w' tr'
  assume "fundingLoop fuel env fa pa spec (w, tr) = (r, (w', tr'))"
  from fundingLoop_trace [OF this] obtain added
    where "tr' = tr @ added" "fundingTrace fa pa spec r added" by blast
  with fundingTrace_all [OF this(2), of P] assms
  show "\<exists>added. tr' = tr @ added \<and> list_all P added" by blast
qed

lemma emits_estimate:
  assumes "\<And>t x. P (UniswapGetRequiredFunding t x)" and "\<And>a t x. P (PaymentGetRequiredFunding a t x)"
  shows "emits P (getAgentRequiredFunding env agentType numAgents numTransfers assetIds loops)"
  unfolding getAgentRequiredFunding_def getAgentRequiredFunding_value_def Let_def
  by (intro emits_await emits_if emits_call emits_return emits_throw emits_sync assms)

lemma emits_runIteration:
  assumes "\<And>t x. P (UniswapGetRequiredFunding t x)" and "\<And>a t x. P (PaymentGetRequiredFunding a t x)"
    and "\<And>x. P (GetPublicBalance 0 pa x)"
    and "\<And>v. P (ConsoleLog (FundingProcessAddress pa v))"
    and "\<And>v x. P (Transfer v fa pa x)"
    and "\<And>h x. P (GetTransactionReceipt h x)"
    and "\<And>e. P (ConsoleLog (FailedToFund e))"
    and "P (SetTimeout 5000)"
    and "\<And>i. P (ConsoleLog (StartingWasabiRun i))"
    and "\<And>i. P (ConsoleLog (TestRunCompleted i))"
    and "\<And>m x. P (AgentManagerRun m x)"
  shows "emits P (runIteration fuel env fa pa agentType numAgents numTxsPerAgent
                    numConcurrentTransfers assets loops runNumber)"
  unfolding runIteration_def
  by (intro emits_await emits_consoleLog emits_call emits_estimate emits_fundingLoop assms)

lemma emits_runLoop:
  assumes "\<And>t x. P (UniswapGetRequiredFunding t x)" and "\<And>a t x. P (PaymentGetRequiredFunding a t x)"
    and "\<And>x. P (GetPublicBalance 0 pa x)"
    and "\<And>v. P (ConsoleLog (FundingProcessAddress pa v))"
    and "\<And>v x. P (Transfer v fa pa x)"
    and "\<And>h x. P (GetTransactionReceipt h x)"
    and "\<And>e. P (ConsoleLog (FailedToFund e))"
    and "P (SetTimeout 5000)"
    and "\<And>i. P (ConsoleLog (StartingWasabiRun i))"
    and "\<And>i. P (ConsoleLog (TestRunCompleted i))"
    and "\<And>m x. P (AgentManagerRun m x)"
  shows "emits P (runLoop fuel env fa pa agentType numAgents numTxsPerAgent
                    numConcurrentTransfers assets loops runNumber)"
proof (induction fuel arbitrary: runNumber)
  case 0
  show ?case by (simp add: emits_def)
next
  case (Suc fuel)
  have step: "runLoop (Suc fuel) env fa pa agentType numAgents numTxsPerAgent
                 numConcurrentTransfers assets loops runNumber
      = (if Some (Integer runNumber) \<noteq> loops then
           await (runIteration fuel env fa pa agentType numAgents numTxsPerAgent
                    numConcurrentTransfers assets loops runNumber)
             (\<lambda>_. runLoop fuel env fa pa agentType numAgents numTxsPerAgent
                     numConcurrentTransfers assets loops (runNumber + 1))
         else return ())"
    by (rule ext) (simp add: return_def)
  show ?case
    unfolding step
    by (intro emits_if emits_await emits_return Suc.IH emits_runIteration assms)
qed

declare runLoop.simps [simp del]

lemma run_parts:
  "run fuel env fundingPrivateKey agentType numAgents numTxsPerAgent numConcurrentTransfers
       assets rollupHost host confs loops
     = await (runSetup env fundingPrivateKey rollupHost confs)
         (\<lambda>(fundingAddress, processAddress).
            await (runLoop fuel env fundingAddress processAddress agentType numAgents
                     numTxsPerAgent numConcurrentTransfers assets loops 0)
              (\<lambda>_. refund env fundingAddress processAddress))"
  by (simp add: run_def)

lemma emits_processKey: "(\<And>k. P (RandomBytes 32 k)) \<Longrightarrow> emits P (processKey env)"
  by (auto simp: emits_def processKey_def split: prod.splits)

lemma emits_runSetup:
  assumes "\<And>u c x. P (CreateAztecSdk u c x)" "\<And>x. P (SdkRun x)" "\<And>x. P (AwaitSynchronised x)"
    and "\<And>k x. P (AddAccount k x)" "\<And>x. P (GetAccounts x)" "\<And>a x. P (GetPublicBalanceAv 0 a x)"
    and "\<And>a b. P (ConsoleLog (PrimaryFundingAccount a b))" "\<And>k. P (RandomBytes 32 k)"
  shows "emits P (runSetup env fundingPrivateKey rollupHost confs)"
  unfolding runSetup_def initSdk_def fundingAccount_def
  by (intro emits_await emits_if emits_call emits_consoleLog emits_processKey emits_return assms)

lemma call_Returned:
  "call f ev (w, tr) = (Returned x, (w', tr')) \<longleftrightarrow> f w = (Inr x, w') \<and> tr' = tr @ [ev (Inr x)]"
  by (auto simp: call_def split: prod.splits sum.splits)

lemma consoleLog_eq:
  "consoleLog l (w, tr) = (r, s') \<longleftrightarrow> r = Returned () \<and> s' = (w, tr @ [ConsoleLog l])"
  by (auto simp: consoleLog_def)

lemma fundingTrace_head:
  "fundingTrace fa pa spec r added \<Longrightarrow> r = Returned () \<Longrightarrow>
     \<exists>b funding. added = GetPublicBalance 0 pa (Inr b) # funding"
  by (induction rule: fundingTrace.induct) simp_all

lemma runIteration_Returned:
  assumes "runIteration fuel env fa pa agentType numAgents numTxsPerAgent numConcurrentTransfers
             assets loops runNumber (w, tr) = (Returned (), (w', tr'))"
  shows "\<exists>it. tr' = tr @ it
           \<and> iterationTrace pa
               (agentManager pa agentType numAgents numTxsPerAgent numConcurrentTransfers assets)
               runNumber it"
proof -
  let ?mgr = "agentManager pa agentType numAgents numTxsPerAgent numConcurrentTransfers assets"
  from assms obtain spec w1 tr1 w2 tr2 w3
    where est: "getAgentRequiredFunding env agentType numAgents numTxsPerAgent assets loops
                  (w, tr @ [ConsoleLog (StartingWasabiRun runNumber)]) = (Returned spec, (w1, tr1))"
      and loop: "fundingLoop fuel env fa pa spec (w1, tr1) = (Returned (), (w2, tr2))"
      and tr': "tr' = tr2 @ [ConsoleLog (StartingWasabiRun runNumber),
                              AgentManagerRun ?mgr (Inr ()),
                              ConsoleLog (TestRunCompleted runNumber)]"
    unfolding runIteration_def
    by (auto simp: await_Returned consoleLog_eq call_Returned)
  have "emits (\<lambda>e. \<not> isBatch e)
          (getAgentRequiredFunding env agentType numAgents numTxsPerAgent assets loops)"
    by (rule emits_estimate) simp_all
  from emitsD [OF this est] obtain budget
    where tr1: "tr1 = (tr @ [ConsoleLog (StartingWasabiRun runNumber)]) @ budget"
      and budget: "list_all (\<lambda>e. \<not> isBatch e) budget"
    by blast
  from fundingLoop_trace [OF loop] obtain added
    where tr2: "tr2 = tr1 @ added" and shape: "fundingTrace fa pa spec (Returned ()) added"
    by blast
  from fundingTrace_head [OF shape] obtain b funding
    where added: "added = GetPublicBalance 0 pa (Inr b) # funding"
    by blast
  have "list_all (\<lambda>e. \<not> isBatch e) added"
    by (rule fundingTrace_all [OF shape]) simp_all
  with added have funding: "list_all (\<lambda>e. \<not> isBatch e) funding"
    by simp
  have "tr' = tr @ ([ConsoleLog (StartingWasabiRun runNumber)] @ budget
        @ [GetPublicBalance 0 pa (Inr b)] @ funding
        @ [ConsoleLog (StartingWasabiRun runNumber),
           AgentManagerRun ?mgr (Inr ()),
           ConsoleLog (TestRunCompleted runNumber)])"
    using tr' tr2 tr1 added by simp
  with iterationTrace.iteration [OF budget funding, of pa ?mgr runNumber b]
  show ?thesis by blast
qed

lemma runLoop_Returned:
  "runLoop fuel env fa pa agentType numAgents numTxsPerAgent numConcurrentTransfers
        assets loops runNumber (w, tr) = (Returned (), (w', tr')) \<Longrightarrow>
   \<exists>n its. loops = Some (Integer n) \<and> runNumber \<le> n \<and> length its = nat (n - runNumber)
         \<and> tr' = tr @ concat its
         \<and> (\<forall>k < nat (n - runNumber).
               iterationTrace pa
                 (agentManager pa agentType numAgents numTxsPerAgent numConcurrentTransfers assets)
                 (runNumber + int k) (its ! k))"
proof (induction fuel arbitrary: runNumber w tr)
  case 0
  then show ?case by (simp add: runLoop.simps)
next
  case (Suc fuel)
  let ?mgr = "agentManager pa agentType numAgents numTxsPerAgent numConcurrentTransfers assets"
  show ?case
  proof (cases "Some (Integer runNumber) = loops")
    case True
    with Suc.prems have "tr' = tr" by (simp add: runLoop.simps)
    with True show ?thesis
      by (intro exI [of _ runNumber] exI [of _ "[]"]) auto
  next
    case False
    with Suc.prems obtain w1 tr1
      where it: "runIteration fuel env fa pa agentType numAgents numTxsPerAgent
                   numConcurrentTransfers assets loops runNumber (w, tr) = (Returned (), (w1, tr1))"
        and rest: "runLoop fuel env fa pa agentType numAgents numTxsPerAgent
                   numConcurrentTransfers assets loops (runNumber + 1) (w1, tr1)
                     = (Returned (), (w', tr'))"
      by (auto simp: runLoop.simps await_Returned)
    from runIteration_Returned [OF it] obtain first
      where tr1: "tr1 = tr @ first" and first: "iterationTrace pa ?mgr runNumber first"
      by blast
    from Suc.IH [OF rest] obtain n its
      where n: "loops = Some (Integer n)" "runNumber + 1 \<le> n"
        and len: "length its = nat (n - (runNumber + 1))"
        and tr': "tr' = tr1 @ concat its"
        and its: "\<forall>k < nat (n - (runNumber + 1)).
                    iterationTrace pa ?mgr (runNumber + 1 + int k) (its ! k)"
      by blast
    have count: "nat (n - runNumber) = Suc (nat (n - (runNumber + 1)))"
      using n(2) by simp
    have "\<forall>k < nat (n - runNumber). iterationTrace pa ?mgr (runNumber + int k) ((first # its) ! k)"
    proof (intro allI impI)
      fix k assume k: "k < nat (n - runNumber)"
      show "iterationTrace pa ?mgr (runNumber + int k) ((first # its) ! k)"
      proof (cases k)
        case 0
        with first show ?thesis by simp
      next
        case (Suc j)
        with k count have "j < nat (n - (runNumber + 1))" by simp
        with its have "iterationTrace pa ?mgr (runNumber + 1 + int j) (its ! j)" by blast
        with Suc show ?thesis by (simp add: add.commute add.left_commute)
      qed
    qed
    moreover have "length (first # its) = nat (n - runNumber)"
      using len count by simp
    moreover have "tr' = tr @ concat (first # its)"
      using tr' tr1 by simp
    ultimately show ?thesis
      using n by (intro exI [of _ n] exI [of _ "first # its"]) auto
  qed
qed

lemma fee: "toBaseUnits ''420'' 12 = 420 * 10 ^ 12"
  by (simp add: toBaseUnits_def)

lemma refund_poll_threw:
  "getPublicBalance env 0 pa w = (Inl e, w1) \<Longrightarrow>
   refund env fa pa (w, tr) = (Thrown e, (w1, tr @ [GetPublicBalance 0 pa (Inl e)]))"
  by (simp add: refund_def io_defs Let_def)

lemma refund_nothing:
  "getPublicBalance env 0 pa w = (Inr b, w1) \<Longrightarrow> \<not> 0 < b - 420 * 10 ^ 12 \<Longrightarrow>
   destroy env w1 = (d, w2) \<Longrightarrow>
   refund env fa pa (w, tr)
     = ((case d of Inl e \<Rightarrow> Thrown e | Inr x \<Rightarrow> Returned x),
        (w2, tr @ [GetPublicBalance 0 pa (Inr b), Destroy d]))"
  by (simp add: refund_def io_defs fee Let_def)

lemma refund_transfer_threw:
  "getPublicBalance env 0 pa w = (Inr b, w1) \<Longrightarrow> 0 < b - 420 * 10 ^ 12 \<Longrightarrow>
   transfer env (b - 420 * 10 ^ 12) pa fa w1 = (Inl e, w2) \<Longrightarrow>
   refund env fa pa (w, tr)
     = (Thrown e,
        (w2, tr @ [GetPublicBalance 0 pa (Inr b),
                   ConsoleLog (RefundingFundingAddress fa (b - 420 * 10 ^ 12)),
                   Transfer (b - 420 * 10 ^ 12) pa fa (Inl e)]))"
  by (simp add: refund_def io_defs fee Let_def)

lemma refund_receipt_threw:
  "getPublicBalance env 0 pa w = (Inr b, w1) \<Longrightarrow> 0 < b - 420 * 10 ^ 12 \<Longrightarrow>
   transfer env (b - 420 * 10 ^ 12) pa fa w1 = (Inr h, w2) \<Longrightarrow>
   getTransactionReceipt env h w2 = (Inl e, w3) \<Longrightarrow>
   refund env fa pa (w, tr)
     = (Thrown e,
        (w3, tr @ [GetPublicBalance 0 pa (Inr b),
                   ConsoleLog (RefundingFundingAddress fa (b - 420 * 10 ^ 12)),
                   Transfer (b - 420 * 10 ^ 12) pa fa (Inr h),
                   GetTransactionReceipt h (Inl e)]))"
  by (simp add: refund_def io_defs fee Let_def)

lemma refund_done:
  "getPublicBalance env 0 pa w = (Inr b, w1) \<Longrightarrow> 0 < b - 420 * 10 ^ 12 \<Longrightarrow>
   transfer env (b - 420 * 10 ^ 12) pa fa w1 = (Inr h, w2) \<Longrightarrow>
   getTransactionReceipt env h w2 = (Inr status, w3) \<Longrightarrow>
   destroy env w3 = (d, w4) \<Longrightarrow>
   refund env fa pa (w, tr)
     = ((case d of Inl e \<Rightarrow> Thrown e | Inr x \<Rightarrow> Returned x),
        (w4, tr @ [GetPublicBalance 0 pa (Inr b),
                   ConsoleLog (RefundingFundingAddress fa (b - 420 * 10 ^ 12)),
                   Transfer (b - 420 * 10 ^ 12) pa fa (Inr h),
                   GetTransactionReceipt h (Inr status),
                   Destroy d]))"
  by (simp add: refund_def io_defs fee Let_def)

text \<open>What the refund appends, in each of its five courses.\<close>

lemma refund_cases:
  assumes "refund env fa pa (w, tr) = (r, (w', tr'))"
  obtains
    (pollThrew) e where "r = Thrown e" "tr' = tr @ [GetPublicBalance 0 pa (Inl e)]"
  | (noRefund) b w1 d where "getPublicBalance env 0 pa w = (Inr b, w1)" "\<not> 0 < b - 420 * 10 ^ 12"
      "r = (case d of Inl e \<Rightarrow> Thrown e | Inr x \<Rightarrow> Returned x)"
      "tr' = tr @ [GetPublicBalance 0 pa (Inr b), Destroy d]"
  | (transferThrew) b w1 e where "getPublicBalance env 0 pa w = (Inr b, w1)" "0 < b - 420 * 10 ^ 12"
      "r = Thrown e"
      "tr' = tr @ [GetPublicBalance 0 pa (Inr b),
                   ConsoleLog (RefundingFundingAddress fa (b - 420 * 10 ^ 12)),
                   Transfer (b - 420 * 10 ^ 12) pa fa (Inl e)]"
  | (receiptThrew) b w1 h e where "getPublicBalance env 0 pa w = (Inr b, w1)" "0 < b - 420 * 10 ^ 12"
      "r = Thrown e"
      "tr' = tr @ [GetPublicBalance 0 pa (Inr b),
                   ConsoleLog (RefundingFundingAddress fa (b - 420 * 10 ^ 12)),
                   Transfer (b - 420 * 10 ^ 12) pa fa (Inr h),
                   GetTransactionReceipt h (Inl e)]"
  | (refunded) b w1 h status d where "getPublicBalance env 0 pa w = (Inr b, w1)" "0 < b - 420 * 10 ^ 12"
      "r = (case d of Inl e \<Rightarrow> Thrown e | Inr x \<Rightarrow> Returned x)"
      "tr' = tr @ [GetPublicBalance 0 pa (Inr b),
                   ConsoleLog (RefundingFundingAddress fa (b - 420 * 10 ^ 12)),
                   Transfer (b - 420 * 10 ^ 12) pa fa (Inr h),
                   GetTransactionReceipt h (Inr status),
                   Destroy d]"
proof -
  obtain p w1 where poll: "getPublicBalance env 0 pa w = (p, w1)"
    by (cases "getPublicBalance env 0 pa w")
  show thesis
  proof (cases p)
    case (Inl e)
    from refund_poll_threw [OF poll [unfolded Inl], of fa tr] assms
    have "r = Thrown e" "tr' = tr @ [GetPublicBalance 0 pa (Inl e)]"
      by simp_all
    then show ?thesis using pollThrew by blast
  next
    case (Inr b)
    note b = poll [unfolded Inr]
    show ?thesis
    proof (cases "0 < b - 420 * 10 ^ 12")
      case False
      obtain d w2 where d: "destroy env w1 = (d, w2)"
        by (cases "destroy env w1")
      from refund_nothing [OF b False d, of fa tr] assms
      have "r = (case d of Inl e \<Rightarrow> Thrown e | Inr x \<Rightarrow> Returned x)"
        "tr' = tr @ [GetPublicBalance 0 pa (Inr b), Destroy d]"
        by simp_all
      then show ?thesis using noRefund [OF b False] by blast
    next
      case True
      obtain t w2 where tx: "transfer env (b - 420 * 10 ^ 12) pa fa w1 = (t, w2)"
        by (cases "transfer env (b - 420 * 10 ^ 12) pa fa w1")
      show ?thesis
      proof (cases t)
        case (Inl e)
        from refund_transfer_threw [OF b True tx [unfolded Inl], of tr] assms
        have "r = Thrown e"
          "tr' = tr @ [GetPublicBalance 0 pa (Inr b),
                   ConsoleLog (RefundingFundingAddress fa (b - 420 * 10 ^ 12)),
                   Transfer (b - 420 * 10 ^ 12) pa fa (Inl e)]"
          by simp_all
        then show ?thesis using transferThrew [OF b True] by blast
      next
        case (Inr h)
        note h = tx [unfolded Inr]
        obtain c w3 where rc: "getTransactionReceipt env h w2 = (c, w3)"
          by (cases "getTransactionReceipt env h w2")
        show ?thesis
        proof (cases c)
          case (Inl e)
          from refund_receipt_threw [OF b True h rc [unfolded Inl], of tr] assms
          have "r = Thrown e"
            "tr' = tr @ [GetPublicBalance 0 pa (Inr b),
                   ConsoleLog (RefundingFundingAddress fa (b - 420 * 10 ^ 12)),
                   Transfer (b - 420 * 10 ^ 12) pa fa (Inr h),
                   GetTransactionReceipt h (Inl e)]"
            by simp_all
          then show ?thesis using receiptThrew [OF b True] by blast
        next
          case (Inr status)
          obtain d w4 where d: "destroy env w3 = (d, w4)"
            by (cases "destroy env w3")
          from refund_done [OF b True h rc [unfolded Inr] d, of tr] assms
          have "r = (case d of Inl e \<Rightarrow> Thrown e | Inr x \<Rightarrow> Returned x)"
            "tr' = tr @ [GetPublicBalance 0 pa (Inr b),
                   ConsoleLog (RefundingFundingAddress fa (b - 420 * 10 ^ 12)),
                   Transfer (b - 420 * 10 ^ 12) pa fa (Inr h),
                   GetTransactionReceipt h (Inr status),
                   Destroy d]"
            by simp_all
          then show ?thesis using refunded [OF b True] by blast
        qed
      qed
    qed
  qed
qed

lemma refund_Returned:
  assumes "refund env fa pa (w, tr) = (Returned (), (w', tr'))"
  shows "\<exists>b rest. tr' = tr @ GetPublicBalance 0 pa (Inr b) # rest @ [Destroy (Inr ())]
           \<and> list_all (\<lambda>e. \<not> isBatch e \<and> \<not> isDestroy e) rest"
  using assms
proof (cases rule: refund_cases)
  case (noRefund b w1 d)
  then have "tr' = tr @ GetPublicBalance 0 pa (Inr b) # [] @ [Destroy (Inr ())]"
    by (cases d) simp_all
  then show ?thesis by (intro exI [of _ b] exI [of _ "[]"]) simp
next
  case (refunded b w1 h status d)
  then have "tr' = tr @ GetPublicBalance 0 pa (Inr b)
       # [ConsoleLog (RefundingFundingAddress fa (b - 420 * 10 ^ 12)),
          Transfer (b - 420 * 10 ^ 12) pa fa (Inr h),
          GetTransactionReceipt h (Inr status)] @ [Destroy (Inr ())]"
    by (cases d) simp_all
  then show ?thesis
    by (intro exI [of _ b]
        exI [of _ "[ConsoleLog (RefundingFundingAddress fa (b - 420 * 10 ^ 12)),
                    Transfer (b - 420 * 10 ^ 12) pa fa (Inr h),
                    GetTransactionReceipt h (Inr status)]"]) simp
qed simp_all

lemma refund_transfers:
  assumes "refund env fa pa (w, tr) = (r, (w', tr'))"
    and "getPublicBalance env 0 pa w = (Inr b, w1)"
  shows "\<exists>added. tr' = tr @ GetPublicBalance 0 pa (Inr b) # added
           \<and> filter isTransfer added
               = (if 0 < b - 420 * 10 ^ 12
                  then [Transfer (b - 420 * 10 ^ 12) pa fa
                          (fst (transfer env (b - 420 * 10 ^ 12) pa fa w1))]
                  else [])"
  using assms
  by (auto simp: refund_def io_defs fee Let_def split: prod.splits sum.splits if_splits)

lemma iterationTrace_batches:
  "iterationTrace pa mgr i it \<Longrightarrow> filter isBatch it = [AgentManagerRun mgr (Inr ())]"
  by (induction rule: iterationTrace.induct) (simp add: list_all_iff filter_empty_conv)

lemma concat_batches:
  "(\<forall>it \<in> set its. length (filter isBatch it) = 1) \<Longrightarrow>
     length (filter isBatch (concat its)) = length its"
  by (induction its) simp_all

lemma run_Returned:
  assumes "run fuel env fundingPrivateKey agentType numAgents numTxsPerAgent numConcurrentTransfers
             assets rollupHost host confs loops (w, tr) = (Returned (), (w', tr'))"
  shows "\<exists>n pa setup its b rest.
           loops = Some (Integer n) \<and> 0 \<le> n \<and> length its = nat n
         \<and> tr' = tr @ setup @ concat its
                   @ GetPublicBalance 0 pa (Inr b) # rest @ [Destroy (Inr ())]
         \<and> (\<forall>k < nat n.
               iterationTrace pa
                 (agentManager pa agentType numAgents numTxsPerAgent numConcurrentTransfers assets)
                 (int k) (its ! k))
         \<and> list_all (\<lambda>e. \<not> isBatch e \<and> \<not> isDestroy e) setup
         \<and> list_all (\<lambda>e. \<not> isDestroy e) (concat its)
         \<and> list_all (\<lambda>e. \<not> isBatch e \<and> \<not> isDestroy e) rest"
proof -
  from assms obtain fa pa w1 tr1 w2 tr2
    where init: "runSetup env fundingPrivateKey rollupHost confs (w, tr)
                    = (Returned (fa, pa), (w1, tr1))"
      and loop: "runLoop fuel env fa pa agentType numAgents numTxsPerAgent numConcurrentTransfers
                   assets loops 0 (w1, tr1) = (Returned (), (w2, tr2))"
      and teardown: "refund env fa pa (w2, tr2) = (Returned (), (w', tr'))"
    unfolding run_parts by (auto simp: await_Returned)
  have "emits (\<lambda>e. \<not> isBatch e \<and> \<not> isDestroy e)
          (runSetup env fundingPrivateKey rollupHost confs)"
    by (rule emits_runSetup) simp_all
  from emitsD [OF this init] obtain added1
    where tr1: "tr1 = tr @ added1" and added1: "list_all (\<lambda>e. \<not> isBatch e \<and> \<not> isDestroy e) added1"
    by blast
  from runLoop_Returned [OF loop] obtain n its
    where n: "loops = Some (Integer n)" "0 \<le> n" and len: "length its = nat n"
      and tr2: "tr2 = tr1 @ concat its"
      and its: "\<forall>k < nat n.
                  iterationTrace pa
                    (agentManager pa agentType numAgents numTxsPerAgent numConcurrentTransfers assets)
                    (int k) (its ! k)"
    by auto
  have "emits (\<lambda>e. \<not> isDestroy e)
          (runLoop fuel env fa pa agentType numAgents numTxsPerAgent numConcurrentTransfers
             assets loops 0)"
    by (rule emits_runLoop) simp_all
  from emitsD [OF this loop] tr2 have quiet: "list_all (\<lambda>e. \<not> isDestroy e) (concat its)"
    by auto
  from refund_Returned [OF teardown] obtain b rest
    where tr': "tr' = tr2 @ GetPublicBalance 0 pa (Inr b) # rest @ [Destroy (Inr ())]"
      and rest: "list_all (\<lambda>e. \<not> isBatch e \<and> \<not> isDestroy e) rest"
    by blast
  have "tr' = tr @ added1 @ concat its
                @ GetPublicBalance 0 pa (Inr b) # rest @ [Destroy (Inr ())]"
    using tr' tr2 tr1 by simp
  with n len its added1 quiet rest show ?thesis by blast
qed

lemma runLoop_never:
  assumes "\<forall>n. loops = Some (Integer n) \<longrightarrow> n < runNumber"
  shows "fst (runLoop fuel env fa pa agentType numAgents numTxsPerAgent numConcurrentTransfers
                assets loops runNumber (w, tr)) \<noteq> Returned ()"
proof
  assume "fst (runLoop fuel env fa pa agentType numAgents numTxsPerAgent numConcurrentTransfers
                assets loops runNumber (w, tr)) = Returned ()"
  then obtain w' tr' where "runLoop fuel env fa pa agentType numAgents numTxsPerAgent
      numConcurrentTransfers assets loops runNumber (w, tr) = (Returned (), (w', tr'))"
    by (metis prod.collapse)
  from runLoop_Returned [OF this] assms show False by auto
qed

lemma run_never:
  assumes "\<forall>n. loops = Some (Integer n) \<longrightarrow> n < 0"
  shows "fst (run fuel env fundingPrivateKey agentType numAgents numTxsPerAgent
                numConcurrentTransfers assets rollupHost host confs loops (w, tr)) \<noteq> Returned ()
       \<and> (\<exists>added. snd (snd (run fuel env fundingPrivateKey agentType numAgents numTxsPerAgent
                numConcurrentTransfers assets rollupHost host confs loops (w, tr))) = tr @ added
              \<and> list_all (\<lambda>e. \<not> isTeardown e) added)"
proof -
  let ?P = "\<lambda>e. \<not> isTeardown e"
  obtain r1 w1 tr1 where init: "runSetup env fundingPrivateKey rollupHost confs (w, tr)
                    = (r1, (w1, tr1))"
    by (metis prod.collapse)
  have "emits ?P (runSetup env fundingPrivateKey rollupHost confs)"
    by (rule emits_runSetup) simp_all
  from emitsD [OF this init] obtain added1
    where tr1: "tr1 = tr @ added1" and added1: "list_all ?P added1"
    by blast
  show ?thesis
  proof (cases r1)
    case (Returned addresses)
    obtain fa pa where addresses: "addresses = (fa, pa)"
      by (cases addresses)
    obtain r2 w2 tr2 where loop: "runLoop fuel env fa pa agentType numAgents numTxsPerAgent
        numConcurrentTransfers assets loops 0 (w1, tr1) = (r2, (w2, tr2))"
      by (metis prod.collapse)
    have r2: "r2 \<noteq> Returned ()"
      using runLoop_never [OF assms, of fuel env fa pa agentType numAgents numTxsPerAgent
          numConcurrentTransfers assets w1 tr1] loop
      by simp
    have "emits ?P (runLoop fuel env fa pa agentType numAgents numTxsPerAgent
             numConcurrentTransfers assets loops 0)"
      by (rule emits_runLoop) simp_all
    from emitsD [OF this loop] obtain added2
      where tr2: "tr2 = tr1 @ added2" and added2: "list_all ?P added2"
      by blast
    have "run fuel env fundingPrivateKey agentType numAgents numTxsPerAgent
            numConcurrentTransfers assets rollupHost host confs loops (w, tr) = (r2, (w2, tr2))"
      using init Returned addresses loop r2
      by (cases r2) (simp_all add: run_parts await_def)
    with r2 tr1 tr2 added1 added2 show ?thesis by simp
  next
    case (Thrown e)
    with init have "run fuel env fundingPrivateKey agentType numAgents numTxsPerAgent
            numConcurrentTransfers assets rollupHost host confs loops (w, tr)
              = (Thrown e, (w1, tr1))"
      by (simp add: run_parts await_def)
    with tr1 added1 show ?thesis by simp
  next
    case OutOfFuel
    with init have "run fuel env fundingPrivateKey agentType numAgents numTxsPerAgent
            numConcurrentTransfers assets rollupHost host confs loops (w, tr)
              = (OutOfFuel, (w1, tr1))"
      by (simp add: run_parts await_def)
    with tr1 added1 show ?thesis by simp
  qed
qed

lemma runIteration_0:
  assumes "runIteration (Suc f) env fa pa agentType numAgents numTxsPerAgent numConcurrentTransfers
             assets loops runNumber (w, tr) = (Returned (), s')"
  shows "fst (runIteration 0 env fa pa agentType numAgents numTxsPerAgent numConcurrentTransfers
                assets loops runNumber (w, tr)) = OutOfFuel
       \<and> filter isBatch (snd (snd (runIteration 0 env fa pa agentType numAgents numTxsPerAgent
                numConcurrentTransfers assets loops runNumber (w, tr)))) = filter isBatch tr"
proof -
  from assms obtain spec w1 tr1
    where est: "getAgentRequiredFunding env agentType numAgents numTxsPerAgent assets loops
                  (w, tr @ [ConsoleLog (StartingWasabiRun runNumber)]) = (Returned spec, (w1, tr1))"
    unfolding runIteration_def
    by (auto simp: await_Returned consoleLog_eq)
  have "emits (\<lambda>e. \<not> isBatch e)
          (getAgentRequiredFunding env agentType numAgents numTxsPerAgent assets loops)"
    by (rule emits_estimate) simp_all
  from emitsD [OF this est] obtain budget
    where tr1: "tr1 = (tr @ [ConsoleLog (StartingWasabiRun runNumber)]) @ budget"
      and budget: "list_all (\<lambda>e. \<not> isBatch e) budget"
    by blast
  have "runIteration 0 env fa pa agentType numAgents numTxsPerAgent numConcurrentTransfers
          assets loops runNumber (w, tr) = (OutOfFuel, (w1, tr1))"
    using est by (simp add: runIteration_def await_def consoleLog_def fundingLoop.simps)
  with tr1 budget show ?thesis
    by (simp add: list_all_iff filter_empty_conv)
qed


lemma runLoop_endless:
  assumes H: "\<And>f i s. \<exists>s'. runIteration (Suc f) env fa pa agentType numAgents numTxsPerAgent
                 numConcurrentTransfers assets loops i s = (Returned (), s')"
  shows "\<forall>n. loops = Some (Integer n) \<longrightarrow> n < runNumber \<Longrightarrow>
         fst (runLoop fuel env fa pa agentType numAgents numTxsPerAgent numConcurrentTransfers
                assets loops runNumber (w, tr)) = OutOfFuel
       \<and> length (filter isBatch (snd (snd (runLoop fuel env fa pa agentType numAgents
                numTxsPerAgent numConcurrentTransfers assets loops runNumber (w, tr)))))
           = length (filter isBatch tr) + (fuel - 1)"
proof (induction fuel arbitrary: runNumber w tr)
  case 0
  show ?case by (simp add: runLoop.simps)
next
  case (Suc fuel)
  from Suc.prems have go: "Some (Integer runNumber) \<noteq> loops"
    by auto
  show ?case
  proof (cases fuel)
    case 0
    from H [of 0 runNumber "(w, tr)"] obtain s'
      where "runIteration (Suc 0) env fa pa agentType numAgents numTxsPerAgent
               numConcurrentTransfers assets loops runNumber (w, tr) = (Returned (), s')"
      by blast
    from runIteration_0 [OF this] obtain s0
      where "runIteration 0 env fa pa agentType numAgents numTxsPerAgent
               numConcurrentTransfers assets loops runNumber (w, tr) = (OutOfFuel, s0)"
        and "filter isBatch (snd s0) = filter isBatch tr"
      by (metis prod.collapse)
    with go 0 show ?thesis
      by (simp add: runLoop.simps await_def)
  next
    case (Suc f)
    from H [of f runNumber "(w, tr)"] obtain w1 tr1
      where it: "runIteration fuel env fa pa agentType numAgents numTxsPerAgent
                   numConcurrentTransfers assets loops runNumber (w, tr) = (Returned (), (w1, tr1))"
      unfolding Suc by (metis prod.collapse)
    from runIteration_Returned [OF it] obtain added
      where "tr1 = tr @ added"
        and "iterationTrace pa
               (agentManager pa agentType numAgents numTxsPerAgent numConcurrentTransfers assets)
               runNumber added"
      by blast
    then have one: "length (filter isBatch tr1) = Suc (length (filter isBatch tr))"
      using iterationTrace_batches by fastforce
    have later: "\<forall>n. loops = Some (Integer n) \<longrightarrow> n < runNumber + 1"
      using Suc.prems by auto
    have "runLoop (Suc fuel) env fa pa agentType numAgents numTxsPerAgent numConcurrentTransfers
            assets loops runNumber (w, tr)
        = runLoop fuel env fa pa agentType numAgents numTxsPerAgent numConcurrentTransfers
            assets loops (runNumber + 1) (w1, tr1)"
      using go it by (simp add: runLoop.simps await_def)
    with Suc.IH [OF later, of w1 tr1] one Suc show ?thesis
      by simp
  qed
qed

lemma steady_iterations:
  "\<forall>f i s. \<exists>s'. runIteration (Suc f) (steady (Inr 1000000000000000) (Inr 1) (Inr True))
                    (EthAddress 0) (EthAddress 32) ''element'' (Integer 2) (Integer 5) (Integer 1) []
                    (Some (Integer l)) i s = (Returned (), s')"
  by (simp add: run_defs steady_def)

lemma steady_run_2:
  "run (Suc (Suc (Suc 0))) (steady (Inr 1000000000000000) (Inr 1) (Inr True)) [] ''element''
       (Integer 2) (Integer 5) (Integer 1) [] ''rollup'' ''host'' (Integer 1) (Some (Integer 2))
       ((), [])
     = (Returned (), ((),
         [CreateAztecSdk ''rollup'' (Integer 1) (Inr ()), SdkRun (Inr ()),
          AwaitSynchronised (Inr ()), GetAccounts (Inr [EthAddress 0]),
          GetPublicBalanceAv 0 (EthAddress 0) (Inr 1000000000000000),
          ConsoleLog (PrimaryFundingAccount (EthAddress 0) 1000000000000000),
          RandomBytes 32 (replicate 32 0),
          AddAccount (replicate 32 0) (Inr (EthAddress 32)),
          ConsoleLog (StartingWasabiRun 0),
          GetPublicBalance 0 (EthAddress 32) (Inr 1000000000000000),
          ConsoleLog (StartingWasabiRun 0),
          AgentManagerRun (ElementAgentManager (EthAddress 32) (Integer 2) (Integer 5) []) (Inr ()),
          ConsoleLog (TestRunCompleted 0),
          ConsoleLog (StartingWasabiRun 1),
          GetPublicBalance 0 (EthAddress 32) (Inr 1000000000000000),
          ConsoleLog (StartingWasabiRun 1),
          AgentManagerRun (ElementAgentManager (EthAddress 32) (Integer 2) (Integer 5) []) (Inr ()),
          ConsoleLog (TestRunCompleted 1),
          GetPublicBalance 0 (EthAddress 32) (Inr 1000000000000000),
          ConsoleLog (RefundingFundingAddress (EthAddress 0) 580000000000000),
          Transfer 580000000000000 (EthAddress 32) (EthAddress 0) (Inr 1),
          GetTransactionReceipt 1 (Inr True),
          Destroy (Inr ())]))"
  by (simp add: run_defs steady_def)

lemma scripted_run_1:
  "run (Suc (Suc 0)) (scripted 0 0 (Inr 0) (Inr 13)) [1, 2] ''payment''
       (Integer 2) (Integer 5) (Integer 1) [Integer 0] ''rollup'' ''host'' (Integer 1)
       (Some (Integer 1))
       ([Done, Done, Done, Account (EthAddress 1), Balance 5, Bytes [9], Account (EthAddress 2),
         Balance 0, Hash 7, Status True, Done, Balance 1000000000000000,
         Hash 8, Status False, Done], [])
     = (Returned (),
        ([], [CreateAztecSdk ''rollup'' (Integer 1) (Inr ()), SdkRun (Inr ()),
              AwaitSynchronised (Inr ()), AddAccount [1, 2] (Inr (EthAddress 1)),
              GetPublicBalanceAv 0 (EthAddress 1) (Inr 5),
              ConsoleLog (PrimaryFundingAccount (EthAddress 1) 5), RandomBytes 32 [9],
              AddAccount [9] (Inr (EthAddress 2)), ConsoleLog (StartingWasabiRun 0),
              PaymentGetRequiredFunding (Some (Integer 0)) (Integer 5) (Inr 13),
              GetPublicBalance 0 (EthAddress 2) (Inr 0),
              ConsoleLog (FundingProcessAddress (EthAddress 2) 176400000000027),
              Transfer 176400000000027 (EthAddress 1) (EthAddress 2) (Inr 7),
              GetTransactionReceipt 7 (Inr True), ConsoleLog (StartingWasabiRun 0),
              AgentManagerRun
                (AgentManager (EthAddress 2) ''payment'' (Integer 2) (Integer 5) (Integer 1)
                   [Integer 0])
                (Inr ()),
              ConsoleLog (TestRunCompleted 0),
              GetPublicBalance 0 (EthAddress 2) (Inr 1000000000000000),
              ConsoleLog (RefundingFundingAddress (EthAddress 1) 580000000000000),
              Transfer 580000000000000 (EthAddress 2) (EthAddress 1) (Inr 8),
              GetTransactionReceipt 8 (Inr False),
              Destroy (Inr ())]))"
  by (simp add: run_defs scripted_def reply_def)

lemma steady_loop_negative:
  "runLoop (Suc (Suc (Suc 0))) (steady (Inr 1000000000000000) (Inr 1) (Inr True))
       (EthAddress 0) (EthAddress 32) ''element'' (Integer 2) (Integer 5) (Integer 1) []
       (Some (Integer (- 1))) 0 ((), [])
     = (OutOfFuel, ((),
         [ConsoleLog (StartingWasabiRun 0),
          GetPublicBalance 0 (EthAddress 32) (Inr 1000000000000000),
          ConsoleLog (StartingWasabiRun 0),
          AgentManagerRun (ElementAgentManager (EthAddress 32) (Integer 2) (Integer 5) []) (Inr ()),
          ConsoleLog (TestRunCompleted 0),
          ConsoleLog (StartingWasabiRun 1),
          GetPublicBalance 0 (EthAddress 32) (Inr 1000000000000000),
          ConsoleLog (StartingWasabiRun 1),
          AgentManagerRun (ElementAgentManager (EthAddress 32) (Integer 2) (Integer 5) []) (Inr ()),
          ConsoleLog (TestRunCompleted 1),
          ConsoleLog (StartingWasabiRun 2)]))"
  by (simp add: run_defs steady_def)



text \<open>
  Claim C5. The reserve is \<open>420 * 10 ^ 12\<close>. When the part before the loop and the loop have
  returned, what \<^verbatim>\<open>run\<close> does is the refund. When the poll of the refund returns the
  balance \<open>b\<close>, the transfers of the refund are: the one transfer of \<open>b - 420 * 10 ^ 12\<close>
  from the process address to the funding address if that value is positive, and none
  otherwise.
\<close>

theorem refund_transfer:
  assumes "runSetup env fundingPrivateKey rollupHost confs s0 = (Returned (fa, pa), s1)"
    and "runLoop fuel env fa pa agentType numAgents numTxsPerAgent numConcurrentTransfers
           assets loops 0 s1 = (Returned (), (w, tr))"
    and "getPublicBalance env 0 pa w = (Inr b, w1)"
  shows "toBaseUnits ''420'' 12 = 420 * 10 ^ 12
       \<and> run fuel env fundingPrivateKey agentType numAgents numTxsPerAgent
             numConcurrentTransfers assets rollupHost host confs loops s0
           = refund env fa pa (w, tr)
       \<and> (\<exists>added. snd (snd (refund env fa pa (w, tr))) = tr @ GetPublicBalance 0 pa (Inr b) # added
             \<and> filter isTransfer added
                 = (if 0 < b - 420 * 10 ^ 12
                    then [Transfer (b - 420 * 10 ^ 12) pa fa
                            (fst (transfer env (b - 420 * 10 ^ 12) pa fa w1))]
                    else []))"
proof (intro conjI)
  show "toBaseUnits ''420'' 12 = 420 * 10 ^ 12"
    by (rule fee)
  show "run fuel env fundingPrivateKey agentType numAgents numTxsPerAgent
             numConcurrentTransfers assets rollupHost host confs loops s0
           = refund env fa pa (w, tr)"
    using assms(1,2) by (simp add: run_def await_def)
  obtain r w' tr' where "refund env fa pa (w, tr) = (r, (w', tr'))"
    by (metis prod.collapse)
  from refund_transfers [OF this assms(3)] this
  show "\<exists>added. snd (snd (refund env fa pa (w, tr))) = tr @ GetPublicBalance 0 pa (Inr b) # added
             \<and> filter isTransfer added
                 = (if 0 < b - 420 * 10 ^ 12
                    then [Transfer (b - 420 * 10 ^ 12) pa fa
                            (fst (transfer env (b - 420 * 10 ^ 12) pa fa w1))]
                    else [])"
    by simp
qed

theorem refund_transfer_witness:
  "run (Suc 0) (scripted 0 0 (Inr 0) (Inr 13)) [1, 2] ''payment''
       (Integer 2) (Integer 5) (Integer 1) [Integer 0] ''rollup'' ''host'' (Integer 1)
       (Some (Integer 0))
       ([Done, Done, Done, Account (EthAddress 1), Balance 5, Bytes [9], Account (EthAddress 2),
         Balance (1000 * 10 ^ 12), Hash 8, Status True, Done], [])
     = (Returned (),
        ([], [CreateAztecSdk ''rollup'' (Integer 1) (Inr ()), SdkRun (Inr ()),
              AwaitSynchronised (Inr ()), AddAccount [1, 2] (Inr (EthAddress 1)),
              GetPublicBalanceAv 0 (EthAddress 1) (Inr 5),
              ConsoleLog (PrimaryFundingAccount (EthAddress 1) 5), RandomBytes 32 [9],
              AddAccount [9] (Inr (EthAddress 2)),
              GetPublicBalance 0 (EthAddress 2) (Inr (1000 * 10 ^ 12)),
              ConsoleLog (RefundingFundingAddress (EthAddress 1) (580 * 10 ^ 12)),
              Transfer (580 * 10 ^ 12) (EthAddress 2) (EthAddress 1) (Inr 8),
              GetTransactionReceipt 8 (Inr True),
              Destroy (Inr ())]))
   \<and> run (Suc 0) (scripted 0 0 (Inr 0) (Inr 13)) [1, 2] ''payment''
       (Integer 2) (Integer 5) (Integer 1) [Integer 0] ''rollup'' ''host'' (Integer 1)
       (Some (Integer 0))
       ([Done, Done, Done, Account (EthAddress 1), Balance 5, Bytes [9], Account (EthAddress 2),
         Balance (300 * 10 ^ 12), Done], [])
     = (Returned (),
        ([], [CreateAztecSdk ''rollup'' (Integer 1) (Inr ()), SdkRun (Inr ()),
              AwaitSynchronised (Inr ()), AddAccount [1, 2] (Inr (EthAddress 1)),
              GetPublicBalanceAv 0 (EthAddress 1) (Inr 5),
              ConsoleLog (PrimaryFundingAccount (EthAddress 1) 5), RandomBytes 32 [9],
              AddAccount [9] (Inr (EthAddress 2)),
              GetPublicBalance 0 (EthAddress 2) (Inr (300 * 10 ^ 12)),
              Destroy (Inr ())]))"
proof -
  let ?env = "scripted 0 0 (Inr 0) (Inr 13)"
  let ?before = "[CreateAztecSdk ''rollup'' (Integer 1) (Inr ()), SdkRun (Inr ()),
              AwaitSynchronised (Inr ()), AddAccount [1, 2] (Inr (EthAddress 1)),
              GetPublicBalanceAv 0 (EthAddress 1) (Inr 5),
              ConsoleLog (PrimaryFundingAccount (EthAddress 1) 5), RandomBytes 32 [9],
              AddAccount [9] (Inr (EthAddress 2))]"
  have before: "runSetup ?env [1, 2] ''rollup'' (Integer 1)
        ([Done, Done, Done, Account (EthAddress 1), Balance 5, Bytes [9], Account (EthAddress 2)]
           @ rest, [])
      = (Returned (EthAddress 1, EthAddress 2), (rest, ?before))" for rest
    by (simp add: run_defs scripted_def reply_def)
  have loop: "runLoop (Suc 0) ?env (EthAddress 1) (EthAddress 2) ''payment'' (Integer 2)
        (Integer 5) (Integer 1) [Integer 0] (Some (Integer 0)) 0 (rest, ?before)
      = (Returned (), (rest, ?before))" for rest
    by (simp add: runLoop.simps)
  have poll: "getPublicBalance ?env 0 (EthAddress 2) (Balance b # rest) = (Inr b, rest)" for b rest
    by (simp add: scripted_def reply_def)
  have rich: "refund ?env (EthAddress 1) (EthAddress 2)
        ([Balance 1000000000000000, Hash 8, Status True, Done], ?before)
      = (Returned (),
         ([], ?before @ [GetPublicBalance 0 (EthAddress 2) (Inr 1000000000000000),
              ConsoleLog (RefundingFundingAddress (EthAddress 1) 580000000000000),
              Transfer 580000000000000 (EthAddress 2) (EthAddress 1) (Inr 8),
              GetTransactionReceipt 8 (Inr True),
              Destroy (Inr ())]))"
    by (simp add: run_defs scripted_def reply_def)
  have poor: "refund ?env (EthAddress 1) (EthAddress 2) ([Balance 300000000000000, Done], ?before)
      = (Returned (),
         ([], ?before @ [GetPublicBalance 0 (EthAddress 2) (Inr 300000000000000),
              Destroy (Inr ())]))"
    by (simp add: run_defs scripted_def reply_def)
  show ?thesis
    using refund_transfer [OF before [of "[Balance 1000000000000000, Hash 8, Status True, Done]"]
          loop [of "[Balance 1000000000000000, Hash 8, Status True, Done]"]
          poll [of 1000000000000000 "[Hash 8, Status True, Done]"], where host = "''host''"]
      refund_transfer [OF before [of "[Balance 300000000000000, Done]"]
          loop [of "[Balance 300000000000000, Done]"]
          poll [of 300000000000000 "[Done]"], where host = "''host''"]
      rich poor
    by simp
qed

text \<open>
  Claim C6, as the code has it. When \<^verbatim>\<open>run\<close> returns, however many iterations ran, the last
  thing it did was \<^verbatim>\<open>sdk.destroy()\<close>, and it did so once. When the loop has returned, what
  \<^verbatim>\<open>run\<close> does is the refund; and in the refund, the session is torn down when nothing is
  to be refunded, and when the transfer was sent and the wait for its receipt returned,
  whatever the status of the receipt, which is not looked at.
  (When the poll, the transfer or the wait throws, \<^verbatim>\<open>run\<close> ends with that error and the
  teardown is not reached: the counterexample below.)
\<close>

theorem destroy_after_refund:
  "(run fuel env fundingPrivateKey agentType numAgents numTxsPerAgent numConcurrentTransfers
        assets rollupHost host confs loops (w0, tr0) = (Returned (), (w', tr')) \<longrightarrow>
      (\<exists>before. tr' = tr0 @ before @ [Destroy (Inr ())] \<and> list_all (\<lambda>e. \<not> isDestroy e) before))
   \<and> (runSetup env fundingPrivateKey rollupHost confs s0 = (Returned (fa, pa), s1)
        \<and> runLoop fuel env fa pa agentType numAgents numTxsPerAgent numConcurrentTransfers
              assets loops 0 s1 = (Returned (), (w, tr)) \<longrightarrow>
        run fuel env fundingPrivateKey agentType numAgents numTxsPerAgent numConcurrentTransfers
          assets rollupHost host confs loops s0 = refund env fa pa (w, tr))
   \<and> (getPublicBalance env 0 pa w = (Inr b, w1) \<and> \<not> 0 < b - 420 * 10 ^ 12
        \<and> destroy env w1 = (d, w2) \<longrightarrow>
        refund env fa pa (w, tr)
          = ((case d of Inl e \<Rightarrow> Thrown e | Inr x \<Rightarrow> Returned x),
             (w2, tr @ [GetPublicBalance 0 pa (Inr b), Destroy d])))
   \<and> (getPublicBalance env 0 pa w = (Inr b, w1) \<and> 0 < b - 420 * 10 ^ 12
        \<and> transfer env (b - 420 * 10 ^ 12) pa fa w1 = (Inr h, w2)
        \<and> getTransactionReceipt env h w2 = (Inr status, w3)
        \<and> destroy env w3 = (d, w4) \<longrightarrow>
        refund env fa pa (w, tr)
          = ((case d of Inl e \<Rightarrow> Thrown e | Inr x \<Rightarrow> Returned x),
             (w4, tr @ [GetPublicBalance 0 pa (Inr b),
                        ConsoleLog (RefundingFundingAddress fa (b - 420 * 10 ^ 12)),
                        Transfer (b - 420 * 10 ^ 12) pa fa (Inr h),
                        GetTransactionReceipt h (Inr status),
                        Destroy d])))"
proof (intro conjI impI)
  assume "run fuel env fundingPrivateKey agentType numAgents numTxsPerAgent numConcurrentTransfers
        assets rollupHost host confs loops (w0, tr0) = (Returned (), (w', tr'))"
  from run_Returned [OF this] obtain n pa before its b rest
    where tr': "tr' = tr0 @ before @ concat its
                  @ GetPublicBalance 0 pa (Inr b) # rest @ [Destroy (Inr ())]"
      and quiet: "list_all (\<lambda>e. \<not> isBatch e \<and> \<not> isDestroy e) before"
        "list_all (\<lambda>e. \<not> isDestroy e) (concat its)"
        "list_all (\<lambda>e. \<not> isBatch e \<and> \<not> isDestroy e) rest"
    by blast
  have "tr' = tr0 @ (before @ concat its @ GetPublicBalance 0 pa (Inr b) # rest)
                @ [Destroy (Inr ())]"
    using tr' by simp
  moreover have "list_all (\<lambda>e. \<not> isDestroy e)
                   (before @ concat its @ GetPublicBalance 0 pa (Inr b) # rest)"
    using quiet by (auto simp: list_all_iff)
  ultimately show "\<exists>before. tr' = tr0 @ before @ [Destroy (Inr ())]
                     \<and> list_all (\<lambda>e. \<not> isDestroy e) before"
    by blast
next
  assume "runSetup env fundingPrivateKey rollupHost confs s0 = (Returned (fa, pa), s1)
        \<and> runLoop fuel env fa pa agentType numAgents numTxsPerAgent numConcurrentTransfers
              assets loops 0 s1 = (Returned (), (w, tr))"
  then show "run fuel env fundingPrivateKey agentType numAgents numTxsPerAgent
          numConcurrentTransfers assets rollupHost host confs loops s0 = refund env fa pa (w, tr)"
    by (simp add: run_def await_def)
next
  assume "getPublicBalance env 0 pa w = (Inr b, w1) \<and> \<not> 0 < b - 420 * 10 ^ 12
        \<and> destroy env w1 = (d, w2)"
  then have "getPublicBalance env 0 pa w = (Inr b, w1)" "\<not> 0 < b - 420 * 10 ^ 12"
    "destroy env w1 = (d, w2)"
    by simp_all
  then show "refund env fa pa (w, tr)
          = ((case d of Inl e \<Rightarrow> Thrown e | Inr x \<Rightarrow> Returned x),
             (w2, tr @ [GetPublicBalance 0 pa (Inr b), Destroy d]))"
    by (rule refund_nothing)
next
  assume "getPublicBalance env 0 pa w = (Inr b, w1) \<and> 0 < b - 420 * 10 ^ 12
        \<and> transfer env (b - 420 * 10 ^ 12) pa fa w1 = (Inr h, w2)
        \<and> getTransactionReceipt env h w2 = (Inr status, w3)
        \<and> destroy env w3 = (d, w4)"
  then have "getPublicBalance env 0 pa w = (Inr b, w1)" "0 < b - 420 * 10 ^ 12"
    "transfer env (b - 420 * 10 ^ 12) pa fa w1 = (Inr h, w2)"
    "getTransactionReceipt env h w2 = (Inr status, w3)"
    "destroy env w3 = (d, w4)"
    by simp_all
  then show "refund env fa pa (w, tr)
          = ((case d of Inl e \<Rightarrow> Thrown e | Inr x \<Rightarrow> Returned x),
             (w4, tr @ [GetPublicBalance 0 pa (Inr b),
                        ConsoleLog (RefundingFundingAddress fa (b - 420 * 10 ^ 12)),
                        Transfer (b - 420 * 10 ^ 12) pa fa (Inr h),
                        GetTransactionReceipt h (Inr status),
                        Destroy d]))"
    by (rule refund_done)
qed

theorem destroy_after_refund_counterexample:
  "run (Suc (Suc 0)) (scripted 0 0 (Inr 0) (Inr 13)) [1, 2] ''payment''
       (Integer 2) (Integer 5) (Integer 1) [Integer 0] ''rollup'' ''host'' (Integer 1)
       (Some (Integer 1))
       ([Done, Done, Done, Account (EthAddress 1), Balance 5, Bytes [9], Account (EthAddress 2),
         Balance 0, Hash 7, Status True, Done, Balance 1000000000000000,
         Fails (Error ''insufficient funds for gas'')], [])
     = (Thrown (Error ''insufficient funds for gas''),
        ([], [CreateAztecSdk ''rollup'' (Integer 1) (Inr ()), SdkRun (Inr ()),
              AwaitSynchronised (Inr ()), AddAccount [1, 2] (Inr (EthAddress 1)),
              GetPublicBalanceAv 0 (EthAddress 1) (Inr 5),
              ConsoleLog (PrimaryFundingAccount (EthAddress 1) 5), RandomBytes 32 [9],
              AddAccount [9] (Inr (EthAddress 2)), ConsoleLog (StartingWasabiRun 0),
              PaymentGetRequiredFunding (Some (Integer 0)) (Integer 5) (Inr 13),
              GetPublicBalance 0 (EthAddress 2) (Inr 0),
              ConsoleLog (FundingProcessAddress (EthAddress 2) 176400000000027),
              Transfer 176400000000027 (EthAddress 1) (EthAddress 2) (Inr 7),
              GetTransactionReceipt 7 (Inr True), ConsoleLog (StartingWasabiRun 0),
              AgentManagerRun
                (AgentManager (EthAddress 2) ''payment'' (Integer 2) (Integer 5) (Integer 1)
                   [Integer 0])
                (Inr ()),
              ConsoleLog (TestRunCompleted 0),
              GetPublicBalance 0 (EthAddress 2) (Inr 1000000000000000),
              ConsoleLog (RefundingFundingAddress (EthAddress 1) 580000000000000),
              Transfer 580000000000000 (EthAddress 2) (EthAddress 1)
                (Inl (Error ''insufficient funds for gas''))]))
   \<and> filter isDestroy (snd (snd
        (run (Suc (Suc 0)) (scripted 0 0 (Inr 0) (Inr 13)) [1, 2] ''payment''
           (Integer 2) (Integer 5) (Integer 1) [Integer 0] ''rollup'' ''host'' (Integer 1)
           (Some (Integer 1))
           ([Done, Done, Done, Account (EthAddress 1), Balance 5, Bytes [9], Account (EthAddress 2),
             Balance 0, Hash 7, Status True, Done, Balance 1000000000000000,
             Fails (Error ''insufficient funds for gas'')], [])))) = []"
  by (simp add: run_defs scripted_def reply_def)

theorem destroy_after_refund_witness:
  "run (Suc (Suc 0)) (scripted 0 0 (Inr 0) (Inr 13)) [1, 2] ''payment''
       (Integer 2) (Integer 5) (Integer 1) [Integer 0] ''rollup'' ''host'' (Integer 1)
       (Some (Integer 1))
       ([Done, Done, Done, Account (EthAddress 1), Balance 5, Bytes [9], Account (EthAddress 2),
         Balance 0, Hash 7, Status True, Done, Balance 1000000000000000,
         Hash 8, Status False, Done], [])
     = (Returned (),
        ([], [CreateAztecSdk ''rollup'' (Integer 1) (Inr ()), SdkRun (Inr ()),
              AwaitSynchronised (Inr ()), AddAccount [1, 2] (Inr (EthAddress 1)),
              GetPublicBalanceAv 0 (EthAddress 1) (Inr 5),
              ConsoleLog (PrimaryFundingAccount (EthAddress 1) 5), RandomBytes 32 [9],
              AddAccount [9] (Inr (EthAddress 2)), ConsoleLog (StartingWasabiRun 0),
              PaymentGetRequiredFunding (Some (Integer 0)) (Integer 5) (Inr 13),
              GetPublicBalance 0 (EthAddress 2) (Inr 0),
              ConsoleLog (FundingProcessAddress (EthAddress 2) 176400000000027),
              Transfer 176400000000027 (EthAddress 1) (EthAddress 2) (Inr 7),
              GetTransactionReceipt 7 (Inr True), ConsoleLog (StartingWasabiRun 0),
              AgentManagerRun
                (AgentManager (EthAddress 2) ''payment'' (Integer 2) (Integer 5) (Integer 1)
                   [Integer 0])
                (Inr ()),
              ConsoleLog (TestRunCompleted 0),
              GetPublicBalance 0 (EthAddress 2) (Inr 1000000000000000),
              ConsoleLog (RefundingFundingAddress (EthAddress 1) 580000000000000),
              Transfer 580000000000000 (EthAddress 2) (EthAddress 1) (Inr 8),
              GetTransactionReceipt 8 (Inr False),
              Destroy (Inr ())]))
   \<and> refund (scripted 0 0 (Inr 0) (Inr 13)) (EthAddress 1) (EthAddress 2)
       ([Balance 1000000000000000, Hash 8, Status False, Done], [])
     = (Returned (),
        ([], [GetPublicBalance 0 (EthAddress 2) (Inr 1000000000000000),
              ConsoleLog (RefundingFundingAddress (EthAddress 1) 580000000000000),
              Transfer 580000000000000 (EthAddress 2) (EthAddress 1) (Inr 8),
              GetTransactionReceipt 8 (Inr False),
              Destroy (Inr ())]))
   \<and> refund (scripted 0 0 (Inr 0) (Inr 13)) (EthAddress 1) (EthAddress 2)
       ([Balance 300000000000000, Done], [])
     = (Returned (),
        ([], [GetPublicBalance 0 (EthAddress 2) (Inr 300000000000000), Destroy (Inr ())]))"
  using destroy_after_refund [where fuel = "Suc (Suc 0)" and env = "scripted 0 0 (Inr 0) (Inr 13)"
        and fundingPrivateKey = "[1, 2]" and agentType = "''payment''" and numAgents = "Integer 2"
        and numTxsPerAgent = "Integer 5" and numConcurrentTransfers = "Integer 1"
        and assets = "[Integer 0]" and rollupHost = "''rollup''" and host = "''host''"
        and confs = "Integer 1" and loops = "Some (Integer 1)" and ?tr0.0 = "[]"
        and ?w0.0 = "[Done, Done, Done, Account (EthAddress 1), Balance 5, Bytes [9],
             Account (EthAddress 2), Balance 0, Hash 7, Status True, Done,
             Balance 1000000000000000, Hash 8, Status False, Done]"
        and ?s0.0 = "([Done, Done, Done, Account (EthAddress 1), Balance 5, Bytes [9],
             Account (EthAddress 2), Balance 0, Hash 7, Status True, Done,
             Balance 1000000000000000, Hash 8, Status False, Done], [])"
        and ?s1.0 = "([Balance 0, Hash 7, Status True, Done,
             Balance 1000000000000000, Hash 8, Status False, Done],
            [CreateAztecSdk ''rollup'' (Integer 1) (Inr ()), SdkRun (Inr ()),
             AwaitSynchronised (Inr ()), AddAccount [1, 2] (Inr (EthAddress 1)),
             GetPublicBalanceAv 0 (EthAddress 1) (Inr 5),
             ConsoleLog (PrimaryFundingAccount (EthAddress 1) 5), RandomBytes 32 [9],
             AddAccount [9] (Inr (EthAddress 2))])"
        and fa = "EthAddress 1" and pa = "EthAddress 2"
        and w = "[Balance 1000000000000000, Hash 8, Status False, Done]"
        and tr = "[CreateAztecSdk ''rollup'' (Integer 1) (Inr ()), SdkRun (Inr ()),
              AwaitSynchronised (Inr ()), AddAccount [1, 2] (Inr (EthAddress 1)),
              GetPublicBalanceAv 0 (EthAddress 1) (Inr 5),
              ConsoleLog (PrimaryFundingAccount (EthAddress 1) 5), RandomBytes 32 [9],
              AddAccount [9] (Inr (EthAddress 2)), ConsoleLog (StartingWasabiRun 0),
              PaymentGetRequiredFunding (Some (Integer 0)) (Integer 5) (Inr 13),
              GetPublicBalance 0 (EthAddress 2) (Inr 0),
              ConsoleLog (FundingProcessAddress (EthAddress 2) 176400000000027),
              Transfer 176400000000027 (EthAddress 1) (EthAddress 2) (Inr 7),
              GetTransactionReceipt 7 (Inr True), ConsoleLog (StartingWasabiRun 0),
              AgentManagerRun
                (AgentManager (EthAddress 2) ''payment'' (Integer 2) (Integer 5) (Integer 1)
                   [Integer 0])
                (Inr ()),
              ConsoleLog (TestRunCompleted 0)]"
        and b = 1000000000000000 and ?w1.0 = "[Hash 8, Status False, Done]" and h = 8
        and ?w2.0 = "[Status False, Done]" and status = False and ?w3.0 = "[Done]"
        and d = "Inr ()" and ?w4.0 = "[]"]
    destroy_after_refund [where env = "scripted 0 0 (Inr 0) (Inr 13)"
        and fa = "EthAddress 1" and pa = "EthAddress 2"
        and w = "[Balance 1000000000000000, Hash 8, Status False, Done]" and tr = "[]"
        and b = 1000000000000000 and ?w1.0 = "[Hash 8, Status False, Done]" and h = 8
        and ?w2.0 = "[Status False, Done]" and status = False and ?w3.0 = "[Done]"
        and d = "Inr ()" and ?w4.0 = "[]"]
    destroy_after_refund [where env = "scripted 0 0 (Inr 0) (Inr 13)"
        and fa = "EthAddress 1" and pa = "EthAddress 2"
        and w = "[Balance 300000000000000, Done]" and tr = "[]"
        and b = 300000000000000 and ?w1.0 = "[Done]" and d = "Inr ()" and ?w2.0 = "[]"]
    scripted_run_1
  by (simp add: scripted_def reply_def)

text \<open>
  Claim C10. When \<^verbatim>\<open>run\<close> returns, \<open>loops\<close> was an integer \<open>n \<ge> 0\<close> and exactly \<open>n\<close> batches
  were run. For a negative \<open>loops\<close> neither the loop nor \<^verbatim>\<open>run\<close> returns, with whatever
  fuel: the run is still going or has ended with an error, and nothing of the refund or
  the teardown is in its trace. Where every iteration returns, the loop with a negative
  \<open>loops\<close> is still going after any number of rounds, one more batch run in each.
\<close>

theorem negative_loops_never_end:
  "(run fuel env fundingPrivateKey agentType numAgents numTxsPerAgent numConcurrentTransfers
        assets rollupHost host confs loops (w, tr) = (Returned (), (w', tr')) \<longrightarrow>
      (\<exists>n. loops = Some (Integer n) \<and> 0 \<le> n
          \<and> length (filter isBatch tr') = length (filter isBatch tr) + nat n))
   \<and> (loops = Some (Integer n) \<and> n < 0 \<longrightarrow>
        fst (runLoop fuel env fa pa agentType numAgents numTxsPerAgent numConcurrentTransfers
               assets loops 0 (w, tr)) \<noteq> Returned ()
      \<and> fst (run fuel env fundingPrivateKey agentType numAgents numTxsPerAgent
               numConcurrentTransfers assets rollupHost host confs loops (w, tr)) \<noteq> Returned ()
      \<and> (\<exists>added. snd (snd (run fuel env fundingPrivateKey agentType numAgents numTxsPerAgent
               numConcurrentTransfers assets rollupHost host confs loops (w, tr))) = tr @ added
             \<and> list_all (\<lambda>e. \<not> isTeardown e) added))
   \<and> (loops = Some (Integer n) \<and> n < 0
        \<and> (\<forall>f i s. \<exists>s'. runIteration (Suc f) env fa pa agentType numAgents numTxsPerAgent
                           numConcurrentTransfers assets loops i s = (Returned (), s')) \<longrightarrow>
        fst (runLoop fuel env fa pa agentType numAgents numTxsPerAgent numConcurrentTransfers
               assets loops 0 (w, tr)) = OutOfFuel
      \<and> length (filter isBatch (snd (snd (runLoop fuel env fa pa agentType numAgents
               numTxsPerAgent numConcurrentTransfers assets loops 0 (w, tr)))))
          = length (filter isBatch tr) + (fuel - 1))"
proof (intro conjI impI)
  assume "run fuel env fundingPrivateKey agentType numAgents numTxsPerAgent numConcurrentTransfers
        assets rollupHost host confs loops (w, tr) = (Returned (), (w', tr'))"
  from run_Returned [OF this] obtain n pa before its b rest
    where n: "loops = Some (Integer n)" "0 \<le> n" and len: "length its = nat n"
      and tr': "tr' = tr @ before @ concat its
                  @ GetPublicBalance 0 pa (Inr b) # rest @ [Destroy (Inr ())]"
      and its: "\<forall>k < nat n.
         iterationTrace pa
           (agentManager pa agentType numAgents numTxsPerAgent numConcurrentTransfers assets)
           (int k) (its ! k)"
      and quiet: "list_all (\<lambda>e. \<not> isBatch e \<and> \<not> isDestroy e) before"
        "list_all (\<lambda>e. \<not> isBatch e \<and> \<not> isDestroy e) rest"
    by blast
  have "\<forall>it \<in> set its. length (filter isBatch it) = 1"
    using its len iterationTrace_batches by (fastforce simp: in_set_conv_nth)
  then have "length (filter isBatch (concat its)) = nat n"
    using concat_batches len by simp
  moreover have "filter isBatch before = []" "filter isBatch rest = []"
    using quiet by (simp_all add: list_all_iff filter_empty_conv)
  ultimately have "length (filter isBatch tr') = length (filter isBatch tr) + nat n"
    using tr' by simp
  with n show "\<exists>n. loops = Some (Integer n) \<and> 0 \<le> n
          \<and> length (filter isBatch tr') = length (filter isBatch tr) + nat n"
    by blast
next
  assume "loops = Some (Integer n) \<and> n < 0"
  then have neg: "\<forall>m. loops = Some (Integer m) \<longrightarrow> m < 0"
    by simp
  show "fst (runLoop fuel env fa pa agentType numAgents numTxsPerAgent numConcurrentTransfers
               assets loops 0 (w, tr)) \<noteq> Returned ()"
    by (rule runLoop_never [OF neg])
  show "fst (run fuel env fundingPrivateKey agentType numAgents numTxsPerAgent
               numConcurrentTransfers assets rollupHost host confs loops (w, tr)) \<noteq> Returned ()"
    using run_never [OF neg] by (rule conjunct1)
  show "\<exists>added. snd (snd (run fuel env fundingPrivateKey agentType numAgents numTxsPerAgent
               numConcurrentTransfers assets rollupHost host confs loops (w, tr))) = tr @ added
             \<and> list_all (\<lambda>e. \<not> isTeardown e) added"
    using run_never [OF neg] by (rule conjunct2)
next
  assume a: "loops = Some (Integer n) \<and> n < 0
        \<and> (\<forall>f i s. \<exists>s'. runIteration (Suc f) env fa pa agentType numAgents numTxsPerAgent
                           numConcurrentTransfers assets loops i s = (Returned (), s'))"
  then have H: "\<And>f i s. \<exists>s'. runIteration (Suc f) env fa pa agentType numAgents numTxsPerAgent
                           numConcurrentTransfers assets loops i s = (Returned (), s')"
    by blast
  from a have neg: "\<forall>m. loops = Some (Integer m) \<longrightarrow> m < 0"
    by simp
  show "fst (runLoop fuel env fa pa agentType numAgents numTxsPerAgent numConcurrentTransfers
               assets loops 0 (w, tr)) = OutOfFuel"
    using runLoop_endless [OF H neg] by (rule conjunct1)
  show "length (filter isBatch (snd (snd (runLoop fuel env fa pa agentType numAgents
               numTxsPerAgent numConcurrentTransfers assets loops 0 (w, tr)))))
          = length (filter isBatch tr) + (fuel - 1)"
    using runLoop_endless [OF H neg] by (rule conjunct2)
qed

theorem negative_loops_never_end_witness:
  "runLoop (Suc (Suc (Suc 0))) (steady (Inr 1000000000000000) (Inr 1) (Inr True))
       (EthAddress 0) (EthAddress 32) ''element'' (Integer 2) (Integer 5) (Integer 1) []
       (Some (Integer (- 1))) 0 ((), [])
     = (OutOfFuel, ((),
         [ConsoleLog (StartingWasabiRun 0),
          GetPublicBalance 0 (EthAddress 32) (Inr 1000000000000000),
          ConsoleLog (StartingWasabiRun 0),
          AgentManagerRun (ElementAgentManager (EthAddress 32) (Integer 2) (Integer 5) []) (Inr ()),
          ConsoleLog (TestRunCompleted 0),
          ConsoleLog (StartingWasabiRun 1),
          GetPublicBalance 0 (EthAddress 32) (Inr 1000000000000000),
          ConsoleLog (StartingWasabiRun 1),
          AgentManagerRun (ElementAgentManager (EthAddress 32) (Integer 2) (Integer 5) []) (Inr ()),
          ConsoleLog (TestRunCompleted 1),
          ConsoleLog (StartingWasabiRun 2)]))
   \<and> fst (run (Suc (Suc (Suc 0))) (steady (Inr 1000000000000000) (Inr 1) (Inr True)) []
           ''element'' (Integer 2) (Integer 5) (Integer 1) [] ''rollup'' ''host'' (Integer 1)
           (Some (Integer (- 1))) ((), [])) = OutOfFuel
   \<and> filter isTeardown (snd (snd
         (run (Suc (Suc (Suc 0))) (steady (Inr 1000000000000000) (Inr 1) (Inr True)) []
           ''element'' (Integer 2) (Integer 5) (Integer 1) [] ''rollup'' ''host'' (Integer 1)
           (Some (Integer (- 1))) ((), [])))) = []
   \<and> fst (run (Suc (Suc (Suc 0))) (steady (Inr 1000000000000000) (Inr 1) (Inr True)) []
           ''element'' (Integer 2) (Integer 5) (Integer 1) [] ''rollup'' ''host'' (Integer 1)
           (Some (Integer 2)) ((), [])) = Returned ()
   \<and> length (filter isBatch (snd (snd
         (run (Suc (Suc (Suc 0))) (steady (Inr 1000000000000000) (Inr 1) (Inr True)) []
           ''element'' (Integer 2) (Integer 5) (Integer 1) [] ''rollup'' ''host'' (Integer 1)
           (Some (Integer 2)) ((), []))))) = 2"
  using negative_loops_never_end [where fuel = "Suc (Suc (Suc 0))"
        and env = "steady (Inr 1000000000000000) (Inr 1) (Inr True)"
        and fundingPrivateKey = "[]" and agentType = "''element''" and numAgents = "Integer 2"
        and numTxsPerAgent = "Integer 5" and numConcurrentTransfers = "Integer 1"
        and assets = "[]" and rollupHost = "''rollup''" and host = "''host''"
        and confs = "Integer 1" and loops = "Some (Integer (- 1))" and n = "- 1"
        and fa = "EthAddress 0" and pa = "EthAddress 32" and w = "()" and tr = "[]"]
    negative_loops_never_end [where fuel = "Suc (Suc (Suc 0))"
        and env = "steady (Inr 1000000000000000) (Inr 1) (Inr True)"
        and fundingPrivateKey = "[]" and agentType = "''element''" and numAgents = "Integer 2"
        and numTxsPerAgent = "Integer 5" and numConcurrentTransfers = "Integer 1"
        and assets = "[]" and rollupHost = "''rollup''" and host = "''host''"
        and confs = "Integer 1" and loops = "Some (Integer 2)" and w = "()" and tr = "[]"]
    steady_iterations [of "- 1"] steady_loop_negative steady_run_2
  by (simp add: run_defs steady_def)

end
